theory Spec2Isabelle
  imports Complex_Main "HOL-Library.Product_Lexorder" "HOL-Library.Sublist"
begin

section \<open>Common data\<close>

text \<open>
  Conventions of the embedding.
  \<^item> A timezone-aware \<^verbatim>\<open>datetime\<close> is its number of seconds since the epoch, an
    \<^typ>\<open>int\<close>; \<^verbatim>\<open>timedelta(days=1)\<close> is 86400.
  \<^item> A Python \<^verbatim>\<open>float\<close> is a \<^typ>\<open>real\<close>; \<^verbatim>\<open>None\<close> in a nullable field is
    \<^term>\<open>None\<close>.
  \<^item> An exception is a value of \<^verbatim>\<open>error\<close>; a function that can raise returns
    \<^verbatim>\<open>error + 'a\<close> with \<^term>\<open>Inl\<close> for the exception.
  \<^item> A generator is the list of what it yields, with the exception that ended it when
    one did; a logger is the list of the warnings it was given.
  \<^item> Tables are lists of rows; a query is the list of rows PostgreSQL may answer with,
    ties of an \<^verbatim>\<open>ORDER BY\<close> in the order of the table.
\<close>

datatype error =
    ValueError
  | LookupError
  | AttributeError
  | UnboundLocalError
  | AssertionError
  | KeyError
  | RuntimeError
  | MissingStationError \<comment> \<open>named by the specification only; no code path raises it\<close>

text \<open>The six measurement columns of a weather record.\<close>

datatype element =
    Temperature
  | Wind_direction
  | Wind_speed
  | Precipitation
  | Sunshine
  | Pressure_msl

definition all_elements :: "element list" where
  "all_elements =
     [Temperature, Wind_direction, Wind_speed, Precipitation, Sunshine, Pressure_msl]"

datatype warning =
    Negative_precipitation
  | Out_of_bounds_wind_direction
  | Ignored_value_gone element real

text \<open>Python truthiness of a nullable float: \<^verbatim>\<open>None\<close> and \<^verbatim>\<open>0.0\<close> are false.\<close>

definition truthy :: "real option \<Rightarrow> bool" where
  "truthy v = (case v of None \<Rightarrow> False | Some x \<Rightarrow> x \<noteq> 0)"

section \<open>parsers.py: MOSMIXParser.sanitize_records\<close>

text \<open>
  The records \<^verbatim>\<open>parse_station\<close> builds carry every key of \<^verbatim>\<open>ELEMENTS\<close>, so a
  MOSMIX record is a record with the six nullable measurements next to its metadata.
\<close>

record mosmix_record =
  observation_type :: string
  source :: string
  station_id :: string
  station_name :: string
  lat :: real
  lon :: real
  height :: real
  timestamp :: int
  temperature :: "real option"
  wind_direction :: "real option"
  wind_speed :: "real option"
  precipitation :: "real option"
  sunshine :: "real option"
  pressure_msl :: "real option"

text \<open>The first \<^verbatim>\<open>if\<close> of the loop body: a truthy precipitation below zero is nulled.\<close>

definition fix_precipitation :: "mosmix_record \<Rightarrow> mosmix_record \<times> warning list" where
  "fix_precipitation r =
     (case precipitation r of
        None \<Rightarrow> (r, [])
      | Some p \<Rightarrow>
          if truthy (Some p) \<and> p < 0
          then (r\<lparr>precipitation := None\<rparr>, [Negative_precipitation])
          else (r, []))"

text \<open>The second \<^verbatim>\<open>if\<close>: a truthy wind direction above 360 loses 360.\<close>

definition fix_wind_direction :: "mosmix_record \<Rightarrow> mosmix_record \<times> warning list" where
  "fix_wind_direction r =
     (case wind_direction r of
        None \<Rightarrow> (r, [])
      | Some w \<Rightarrow>
          if truthy (Some w) \<and> w > 360
          then (r\<lparr>wind_direction := Some (w - 360)\<rparr>, [Out_of_bounds_wind_direction])
          else (r, []))"

definition sanitize_step :: "mosmix_record \<Rightarrow> mosmix_record \<times> warning list" where
  "sanitize_step r =
     (let (r1, w1) = fix_precipitation r;
          (r2, w2) = fix_wind_direction r1
      in (r2, w1 @ w2))"

text \<open>The generator: the sanitized records in order, and the warnings logged on the way.\<close>

definition sanitize_records :: "mosmix_record list \<Rightarrow> mosmix_record list \<times> warning list" where
  "sanitize_records records =
     (map (fst \<circ> sanitize_step) records, concat (map (snd \<circ> sanitize_step) records))"

section \<open>polling.py: DWDPoller.poll\<close>

record file_info =
  url :: string
  parser :: string
  last_modified :: int
  file_size :: int

text \<open>A row of the table \<^verbatim>\<open>parsed_files\<close>.\<close>

record parsed_file =
  pf_url :: string
  pf_last_modified :: int
  pf_file_size :: int
  pf_parsed_at :: int

text \<open>
  The dict comprehension over the fetched rows: a later row with the same url replaces
  an earlier one.
\<close>

definition parsed_files :: "parsed_file list \<Rightarrow> (string \<rightharpoonup> int \<times> int)" where
  "parsed_files rows =
     fold (\<lambda>row d. d(pf_url row \<mapsto> (pf_last_modified row, pf_file_size row))) rows Map.empty"

definition fingerprint :: "file_info \<Rightarrow> int \<times> int" where
  "fingerprint fi = (last_modified fi, file_size fi)"

text \<open>
  \<^verbatim>\<open>poll\<close> walks \<^verbatim>\<open>self.urls\<close> and, for every file \<^verbatim>\<open>poll_url\<close> yields, yields it
  when \<^verbatim>\<open>parsed_files.get(url) != fingerprint\<close>. \<^verbatim>\<open>poll_url\<close> fetches and parses the
  remote index (HTTP and HTML), so the model takes it as the function from a seed url to
  the files it yields.
\<close>

definition poll ::
  "(string \<Rightarrow> file_info list) \<Rightarrow> string list \<Rightarrow> parsed_file list \<Rightarrow> file_info list" where
  "poll poll_url urls rows =
     concat (map (\<lambda>u. filter (\<lambda>fi. parsed_files rows (url fi) \<noteq> Some (fingerprint fi))
                          (poll_url u)) urls)"

section \<open>parsers.py: ObservationsParser\<close>

subsection \<open>Strings\<close>

text \<open>
  \<^verbatim>\<open>str.startswith\<close> and \<^verbatim>\<open>str.endswith\<close> are \<^const>\<open>prefix\<close> and \<^const>\<open>suffix\<close>.
  \<^verbatim>\<open>str.strip()\<close> removes the ASCII whitespace of both ends (the Latin-1 text of the
  product files holds no other).
\<close>

definition whitespace :: "char list" where
  "whitespace = [CHR '' '', CHR 0x09, CHR 0x0A, CHR 0x0B, CHR 0x0C, CHR 0x0D,
                 CHR 0x1C, CHR 0x1D, CHR 0x1E, CHR 0x1F]"

definition strip :: "string \<Rightarrow> string" where
  "strip s = rev (dropWhile (\<lambda>c. c \<in> set whitespace)
                  (rev (dropWhile (\<lambda>c. c \<in> set whitespace) s)))"

definition basename :: "string \<Rightarrow> string" where
  "basename path = rev (takeWhile (\<lambda>c. c \<noteq> CHR ''/'') (rev path))"

subsection \<open>Dictionaries in insertion order\<close>

text \<open>
  A Python dict iterates in insertion order, and assigning to a key it already holds
  keeps the key's place and replaces its value.
\<close>

fun dict_set :: "('k \<times> 'v) list \<Rightarrow> 'k \<Rightarrow> 'v \<Rightarrow> ('k \<times> 'v) list" where
  "dict_set [] k v = [(k, v)]"
| "dict_set ((k', v') # kvs) k v =
     (if k' = k then (k, v) # kvs else (k', v') # dict_set kvs k v)"

subsection \<open>The parser object, the settings and the archive\<close>

text \<open>
  \<^verbatim>\<open>brightsky.units\<close> and \<^verbatim>\<open>brightsky.settings\<close> are not among the sources: the unit
  converters and the settings are parameters. \<^verbatim>\<open>float\<close> is Python's builtin, a parameter
  too: \<^term>\<open>None\<close> is its \<^verbatim>\<open>ValueError\<close>.
\<close>

record units =
  celsius_to_kelvin :: "real \<Rightarrow> real"
  hpa_to_pa :: "real \<Rightarrow> real"
  kmh_to_ms :: "real \<Rightarrow> real"
  minutes_to_seconds :: "real \<Rightarrow> real"

record settings =
  MIN_DATE :: int
  MAX_DATE :: "int option"

record observations_parser =
  parser_url :: string
  parser_path :: string
  elements :: "(element \<times> string) list"
  converters :: "(element \<times> (real \<Rightarrow> real)) list"

definition TemperatureObservationsParser :: "units \<Rightarrow> string \<Rightarrow> string \<Rightarrow> observations_parser" where
  "TemperatureObservationsParser u a_url a_path =
     \<lparr>parser_url = a_url, parser_path = a_path,
      elements = [(Temperature, ''TT_TU'')],
      converters = [(Temperature, celsius_to_kelvin u)]\<rparr>"

definition PrecipitationObservationsParser :: "string \<Rightarrow> string \<Rightarrow> observations_parser" where
  "PrecipitationObservationsParser a_url a_path =
     \<lparr>parser_url = a_url, parser_path = a_path,
      elements = [(Precipitation, ''  R1'')],
      converters = []\<rparr>"

definition WindObservationsParser :: "string \<Rightarrow> string \<Rightarrow> observations_parser" where
  "WindObservationsParser a_url a_path =
     \<lparr>parser_url = a_url, parser_path = a_path,
      elements = [(Wind_speed, ''   F''), (Wind_direction, ''   D'')],
      converters = []\<rparr>"

definition SunshineObservationsParser :: "units \<Rightarrow> string \<Rightarrow> string \<Rightarrow> observations_parser" where
  "SunshineObservationsParser u a_url a_path =
     \<lparr>parser_url = a_url, parser_path = a_path,
      elements = [(Sunshine, ''SD_SO'')],
      converters = [(Sunshine, minutes_to_seconds u)]\<rparr>"

definition PressureObservationsParser :: "units \<Rightarrow> string \<Rightarrow> string \<Rightarrow> observations_parser" where
  "PressureObservationsParser u a_url a_path =
     \<lparr>parser_url = a_url, parser_path = a_path,
      elements = [(Pressure_msl, ''  P0'')],
      converters = [(Pressure_msl, hpa_to_pa u)]\<rparr>"

text \<open>
  A row of \<^verbatim>\<open>Metadaten_Geographie_<id>.txt\<close> after \<^verbatim>\<open>strptime\<close> and \<^verbatim>\<open>float\<close>, and a
  row of the product file: \<^verbatim>\<open>MESS_DATUM\<close> after \<^verbatim>\<open>strptime\<close>, the other cells as text.
\<close>

type_synonym location = "real \<times> real \<times> real \<times> string"

record geography_row =
  von_datum :: int
  Geogr_Breite :: real
  Geogr_Laenge :: real
  Stationshoehe :: real
  Stationsname :: string

record product_row =
  MESS_DATUM :: int
  cells :: "(string \<times> string) list"

datatype member =
    Geography "geography_row list"
  | Product "product_row list"
  | Other

text \<open>The archive: its members by name, in the order of \<^verbatim>\<open>namelist()\<close>.\<close>

type_synonym zipfile = "(string \<times> member) list"

definition namelist :: "zipfile \<Rightarrow> string list" where
  "namelist zf = map fst zf"

text \<open>
  A generator that may raise: what it yielded, and the exception that ended it, if one
  did.
\<close>

type_synonym 'a generator = "'a list \<times> error option"

subsection \<open>parse_station_id, parse_observation_type, parse_lat_lon_history\<close>

definition is_digit :: "char \<Rightarrow> bool" where
  "is_digit c = (c \<in> set ''0123456789'')"

text \<open>\<^verbatim>\<open>re.match(r'Metadaten_Geographie_(\d+)\.txt', filename)\<close>: group 1, if it matches.\<close>

definition match_station_id :: "string \<Rightarrow> string option" where
  "match_station_id filename =
     (if prefix ''Metadaten_Geographie_'' filename
      then (let rest = drop (length ''Metadaten_Geographie_'') filename;
                digits = takeWhile is_digit rest
            in if digits \<noteq> [] \<and> prefix ''.txt'' (dropWhile is_digit rest)
               then Some digits else None)
      else None)"

fun parse_station_id_names :: "string list \<Rightarrow> error + string" where
  "parse_station_id_names [] = Inl ValueError"
| "parse_station_id_names (filename # rest) =
     (case match_station_id filename of
        Some m \<Rightarrow> Inr m
      | None \<Rightarrow> parse_station_id_names rest)"

definition parse_station_id :: "zipfile \<Rightarrow> error + string" where
  "parse_station_id zf = parse_station_id_names (namelist zf)"

definition parse_observation_type :: "observations_parser \<Rightarrow> error + string" where
  "parse_observation_type p =
     (let filename = basename (parser_path p)
      in if suffix ''_akt.zip'' filename then Inr ''recent''
         else if suffix ''_hist.zip'' filename then Inr ''historical''
         else Inl ValueError)"

definition parse_lat_lon_history :: "zipfile \<Rightarrow> string \<Rightarrow> error + (int \<times> location) list" where
  "parse_lat_lon_history zf a_station_id =
     (case map_of zf (''Metadaten_Geographie_'' @ a_station_id @ ''.txt'') of
        Some (Geography rows) \<Rightarrow>
          Inr (fold (\<lambda>row history.
                  dict_set history (von_datum row)
                    (Geogr_Breite row, Geogr_Laenge row, Stationshoehe row, Stationsname row))
                rows [])
      | _ \<Rightarrow> Inl KeyError)"

text \<open>The entry a row of the geography file puts into the history.\<close>

definition geo_entry :: "geography_row \<Rightarrow> int \<times> location" where
  "geo_entry row =
     (von_datum row, (Geogr_Breite row, Geogr_Laenge row, Stationshoehe row, Stationsname row))"

subsection \<open>parse_elements\<close>

fun parse_element_cells ::
  "(string \<Rightarrow> real option) \<Rightarrow> (string \<times> string) list \<Rightarrow> (element \<times> string) list
   \<Rightarrow> error + (element \<times> real option) list" where
  "parse_element_cells pyfloat row [] = Inr []"
| "parse_element_cells pyfloat row ((el, element_key) # rest) =
     (case map_of row element_key of
        None \<Rightarrow> Inl KeyError
      | Some cell \<Rightarrow>
          (case (if strip cell \<noteq> ''-999''
                 then (case pyfloat cell of None \<Rightarrow> Inl ValueError | Some x \<Rightarrow> Inr (Some x))
                 else Inr None) of
             Inl e \<Rightarrow> Inl e
           | Inr v \<Rightarrow>
               (case parse_element_cells pyfloat row rest of
                  Inl e \<Rightarrow> Inl e
                | Inr vs \<Rightarrow> Inr ((el, v) # vs))))"

text \<open>
  The converter loop. Every converter of the five parsers is keyed by an element of the
  same parser, so \<^verbatim>\<open>elements[element]\<close> finds its key.
\<close>

definition convert_elements ::
  "(element \<times> (real \<Rightarrow> real)) list \<Rightarrow> (element \<times> real option) list
   \<Rightarrow> (element \<times> real option) list" where
  "convert_elements convs els =
     map (\<lambda>(el, v). (el, case map_of convs el of None \<Rightarrow> v | Some c \<Rightarrow> map_option c v)) els"

definition parse_elements ::
  "(string \<Rightarrow> real option) \<Rightarrow> observations_parser \<Rightarrow> (string \<times> string) list
   \<Rightarrow> error + (element \<times> real option) list" where
  "parse_elements pyfloat p row =
     (case parse_element_cells pyfloat row (elements p) of
        Inl e \<Rightarrow> Inl e
      | Inr els \<Rightarrow> Inr (convert_elements (converters p) els))"

subsection \<open>parse_records\<close>

text \<open>The dict \<^verbatim>\<open>parse_records\<close> yields; \<^verbatim>\<open>obs_elements\<close> holds its element keys.\<close>

record observation =
  obs_source :: string
  obs_lat :: real
  obs_lon :: real
  obs_height :: real
  obs_station_name :: string
  obs_timestamp :: int
  obs_elements :: "(element \<times> real option) list"

text \<open>
  The inner loop over \<^verbatim>\<open>lat_lon_history.items()\<close>: it stops at the first entry dated
  after the timestamp and otherwise rebinds \<^verbatim>\<open>lat, lon, height, station_name\<close>. The four
  variables are locals of the generator, so they keep the value of the previous row, and
  are unbound (\<^term>\<open>None\<close>) before the first binding.
\<close>

fun select_location :: "(int \<times> location) list \<Rightarrow> int \<Rightarrow> location option \<Rightarrow> location option" where
  "select_location [] ts bound = bound"
| "select_location ((date, lat_lon_height_name) # rest) ts bound =
     (if date > ts then bound else select_location rest ts (Some lat_lon_height_name))"

fun parse_rows ::
  "settings \<Rightarrow> (string \<Rightarrow> real option) \<Rightarrow> observations_parser \<Rightarrow> string
   \<Rightarrow> (int \<times> location) list \<Rightarrow> location option \<Rightarrow> product_row list
   \<Rightarrow> observation generator" where
  "parse_rows st pyfloat p filename history bound [] = ([], None)"
| "parse_rows st pyfloat p filename history bound (row # rows) =
     (let ts = MESS_DATUM row in
      if ts < MIN_DATE st then parse_rows st pyfloat p filename history bound rows
      else if (case MAX_DATE st of None \<Rightarrow> False | Some m \<Rightarrow> ts > m)
      then parse_rows st pyfloat p filename history bound rows
      else
        (case select_location history ts bound of
           None \<Rightarrow> ([], Some UnboundLocalError)
         | Some (a_lat, a_lon, a_height, a_name) \<Rightarrow>
             (case parse_elements pyfloat p (cells row) of
                Inl e \<Rightarrow> ([], Some e)
              | Inr els \<Rightarrow>
                  (let (records, raised) =
                         parse_rows st pyfloat p filename history
                           (Some (a_lat, a_lon, a_height, a_name)) rows
                   in (\<lparr>obs_source = ''Observations:Recent:'' @ filename,
                        obs_lat = a_lat, obs_lon = a_lon, obs_height = a_height,
                        obs_station_name = a_name, obs_timestamp = ts,
                        obs_elements = els\<rparr> # records, raised)))))"

definition parse_records ::
  "settings \<Rightarrow> (string \<Rightarrow> real option) \<Rightarrow> observations_parser \<Rightarrow> zipfile
   \<Rightarrow> (int \<times> location) list \<Rightarrow> observation generator" where
  "parse_records st pyfloat p zf lat_lon_history =
     (let product_filenames = filter (prefix ''produkt_'') (namelist zf) in
      if length product_filenames \<noteq> 1 then ([], Some AssertionError)
      else
        (let filename = hd product_filenames in
         case map_of zf filename of
           Some (Product rows) \<Rightarrow> parse_rows st pyfloat p filename lat_lon_history None rows
         | _ \<Rightarrow> ([], Some KeyError)))"

subsection \<open>sanitize_record and parse\<close>

text \<open>
  The ignored-values file (\<^verbatim>\<open>settings.IGNORED_VALUES_PATH\<close>):
  \<^verbatim>\<open>url -> timestamp -> element -> value\<close>.
\<close>

type_synonym ignored_values = "(string \<times> (int \<times> (element \<times> real) list) list) list"

text \<open>
  The names an instance of an \<^verbatim>\<open>ObservationsParser\<close> subclass answers to, next to those
  of \<^verbatim>\<open>object\<close>: the instance attributes \<^verbatim>\<open>__init__\<close> and \<^verbatim>\<open>logger\<close> set, and the
  attributes of the classes \<^verbatim>\<open>ObservationsParser\<close> and \<^verbatim>\<open>Parser\<close>. The property of lines
  230 to 244 is declared under the name \<^verbatim>\<open>_ignored_values\<close>.
\<close>

definition parser_attributes :: "string list" where
  "parser_attributes =
     [''url'', ''path'', ''downloaded_files'', ''_logger'',
      ''elements'', ''converters'', ''_ignored_values'', ''should_skip'', ''parse'',
      ''parse_station_id'', ''parse_observation_type'', ''parse_lat_lon_history'',
      ''parse_records'', ''parse_elements'', ''sanitize_record'',
      ''DEFAULT_URL'', ''logger'', ''download'', ''cleanup'']"

text \<open>
  \<^verbatim>\<open>self.ignored_values\<close> in \<^verbatim>\<open>sanitize_record\<close>: an attribute lookup, which raises
  \<^verbatim>\<open>AttributeError\<close> for a name the instance does not answer to. Under a name it
  answered to, the property would give the entry of the parser's url, \<^verbatim>\<open>{}\<close> without
  one.
\<close>

definition self_ignored_values ::
  "ignored_values \<Rightarrow> observations_parser \<Rightarrow> error + (int \<times> (element \<times> real) list) list" where
  "self_ignored_values config p =
     (if ''ignored_values'' \<in> set parser_attributes
      then Inr (case map_of config (parser_url p) of None \<Rightarrow> [] | Some d \<Rightarrow> d)
      else Inl AttributeError)"

text \<open>
  The loop of \<^verbatim>\<open>sanitize_record\<close> (lines 349 to 356) over the entries of one timestamp:
  an element whose value equals the ignored value is nulled, any other gets a warning.
  \<^verbatim>\<open>record[element]\<close> raises \<^verbatim>\<open>KeyError\<close> for an element the record does not hold.
\<close>

fun sanitize_loop ::
  "(element \<times> real) list \<Rightarrow> observation \<Rightarrow> warning list \<Rightarrow> error + observation \<times> warning list" where
  "sanitize_loop [] r ws = Inr (r, ws)"
| "sanitize_loop ((el, ignored_value) # rest) r ws =
     (case map_of (obs_elements r) el of
        None \<Rightarrow> Inl KeyError
      | Some v \<Rightarrow>
          if v = Some ignored_value
          then sanitize_loop rest (r\<lparr>obs_elements := dict_set (obs_elements r) el None\<rparr>) ws
          else sanitize_loop rest r (ws @ [Ignored_value_gone el ignored_value]))"

definition sanitize_record ::
  "ignored_values \<Rightarrow> observations_parser \<Rightarrow> observation \<Rightarrow> error + observation \<times> warning list" where
  "sanitize_record config p r =
     (case self_ignored_values config p of
        Inl e \<Rightarrow> Inl e
      | Inr by_timestamp \<Rightarrow>
          sanitize_loop
            (case map_of by_timestamp (obs_timestamp r) of None \<Rightarrow> [] | Some ignores \<Rightarrow> ignores)
            r [])"

text \<open>
  \<^verbatim>\<open>parse\<close> takes the records of \<^verbatim>\<open>parse_records\<close> one by one, sanitizes each and yields
  it with \<^verbatim>\<open>observation_type\<close> and \<^verbatim>\<open>station_id\<close> in front. An exception of
  \<^verbatim>\<open>sanitize_record\<close> ends the generator at that record; one of \<^verbatim>\<open>parse_records\<close> ends
  it after the records yielded before.
\<close>

fun emit_records ::
  "ignored_values \<Rightarrow> observations_parser \<Rightarrow> string \<Rightarrow> string \<Rightarrow> observation list
   \<Rightarrow> error option \<Rightarrow> (string \<times> string \<times> observation) generator \<times> warning list" where
  "emit_records config p otype sid [] raised = (([], raised), [])"
| "emit_records config p otype sid (r # rs) raised =
     (case sanitize_record config p r of
        Inl e \<Rightarrow> (([], Some e), [])
      | Inr (r', ws) \<Rightarrow>
          (let ((out, e), ws') = emit_records config p otype sid rs raised
           in (((otype, sid, r') # out, e), ws @ ws')))"

definition ObservationsParser_parse ::
  "settings \<Rightarrow> (string \<Rightarrow> real option) \<Rightarrow> ignored_values \<Rightarrow> observations_parser \<Rightarrow> zipfile
   \<Rightarrow> (string \<times> string \<times> observation) generator \<times> warning list" where
  "ObservationsParser_parse st pyfloat config p zf =
     (case parse_station_id zf of
        Inl e \<Rightarrow> (([], Some e), [])
      | Inr sid \<Rightarrow>
          (case parse_observation_type p of
             Inl e \<Rightarrow> (([], Some e), [])
           | Inr otype \<Rightarrow>
               (case parse_lat_lon_history zf sid of
                  Inl e \<Rightarrow> (([], Some e), [])
                | Inr lat_lon_history \<Rightarrow>
                    (let (records, raised) = parse_records st pyfloat p zf lat_lon_history
                     in emit_records config p otype sid records raised))))"

section \<open>The tables\<close>

text \<open>
  \<^verbatim>\<open>brightsky.db\<close> and the schema are not among the sources; the tables are lists of rows
  with the columns the queries name. \<^verbatim>\<open>parsers.py\<close> calls the station column of
  \<^verbatim>\<open>sources\<close> \<^verbatim>\<open>station_id\<close>, \<^verbatim>\<open>query.py\<close> calls it \<^verbatim>\<open>dwd_station_id\<close>: one column
  here.
\<close>

record source_row =
  src_id :: int
  src_dwd_station_id :: "string option"
  src_wmo_station_id :: "string option"
  src_station_name :: string
  src_observation_type :: string
  src_lat :: real
  src_lon :: real
  src_height :: real

text \<open>
  A row of \<^verbatim>\<open>weather\<close>, and the dict \<^verbatim>\<open>_make_dicts\<close> makes of it; the key
  \<^verbatim>\<open>fallback_source_ids\<close> is absent (\<^term>\<open>None\<close>) until \<^verbatim>\<open>_fill_missing_fields\<close> sets it.
\<close>

record weather_row =
  w_timestamp :: int
  w_source_id :: int
  w_elements :: "element \<Rightarrow> real option"
  fallback_source_ids :: "(element \<rightharpoonup> int) option"

record database =
  sources_tbl :: "source_row list"
  weather_tbl :: "weather_row list"

text \<open>
  What the queries leave to PostgreSQL: the order of the enum \<^verbatim>\<open>observation_type\<close>, and
  the earth-distance functions.
\<close>

record postgres =
  type_order :: "string \<Rightarrow> nat"
  earth_distance :: "real \<Rightarrow> real \<Rightarrow> real \<Rightarrow> real \<Rightarrow> real"
  earth_box_contains :: "real \<Rightarrow> real \<Rightarrow> real \<Rightarrow> real \<Rightarrow> real \<Rightarrow> bool"

section \<open>parsers.py: CurrentObservationsParser\<close>

definition current_ELEMENTS :: "(string \<times> element) list" where
  "current_ELEMENTS =
     [(''dry_bulb_temperature_at_2_meter_above_ground'', Temperature),
      (''mean_wind_direction_during_last_10 min_at_10_meters_above_ground'', Wind_direction),
      (''mean_wind_speed_during last_10_min_at_10_meters_above_ground'', Wind_speed),
      (''precipitation_amount_last_hour'', Precipitation),
      (''pressure_reduced_to_mean_sea_level'', Pressure_msl),
      (''total_time_of_sunshine_during_last_hour'', Sunshine)]"

definition DATE_COLUMN :: string where
  "DATE_COLUMN = ''surface observations''"

definition HOUR_COLUMN :: string where
  "HOUR_COLUMN = ''Parameter description''"

definition current_CONVERTERS :: "units \<Rightarrow> (element \<times> (real \<Rightarrow> real)) list" where
  "current_CONVERTERS u =
     [(Pressure_msl, hpa_to_pa u), (Sunshine, minutes_to_seconds u),
      (Temperature, celsius_to_kelvin u), (Wind_speed, kmh_to_ms u)]"

record current_record =
  cur_observation_type :: string
  cur_station_id :: string
  cur_station_name :: string
  cur_lat :: real
  cur_lon :: real
  cur_height :: real
  cur_timestamp :: int
  cur_elements :: "(element \<times> real option) list"

text \<open>\<^verbatim>\<open>load_location\<close>: the newest forecast source of the station, or \<^verbatim>\<open>ValueError\<close>.\<close>

definition load_location :: "source_row list \<Rightarrow> string \<Rightarrow> error + location" where
  "load_location tbl a_station_id =
     (case sort_key (\<lambda>s. - src_id s)
             (filter (\<lambda>s. src_observation_type s = ''forecast'' \<and>
                           src_dwd_station_id s = Some a_station_id) tbl) of
        [] \<Rightarrow> Inl ValueError
      | row # _ \<Rightarrow> Inr (src_lat row, src_lon row, src_height row, src_station_name row))"

definition replace_comma :: "string \<Rightarrow> string" where
  "replace_comma s = map (\<lambda>c. if c = CHR '','' then CHR ''.'' else c) s"

definition rstrip_underscore :: "string \<Rightarrow> string" where
  "rstrip_underscore s = rev (dropWhile (\<lambda>c. c = CHR ''_'') (rev s))"

fun parse_row_cells ::
  "(string \<Rightarrow> real option) \<Rightarrow> (string \<times> string) list \<Rightarrow> (string \<times> element) list
   \<Rightarrow> error + (element \<times> real option) list" where
  "parse_row_cells pyfloat row [] = Inr []"
| "parse_row_cells pyfloat row ((column, el) # rest) =
     (case map_of row column of
        None \<Rightarrow> Inl KeyError
      | Some cell \<Rightarrow>
          (case (if cell = ''---'' then Inr None
                 else (case pyfloat (replace_comma cell) of
                         None \<Rightarrow> Inl ValueError
                       | Some x \<Rightarrow> Inr (Some x))) of
             Inl e \<Rightarrow> Inl e
           | Inr v \<Rightarrow>
               (case parse_row_cells pyfloat row rest of
                  Inl e \<Rightarrow> Inl e
                | Inr vs \<Rightarrow> Inr ((el, v) # vs))))"

text \<open>
  \<^verbatim>\<open>parse_row\<close>: the elements, then the timestamp (\<^verbatim>\<open>strptime\<close> is a parameter,
  \<^term>\<open>None\<close> its \<^verbatim>\<open>ValueError\<close>), then \<^verbatim>\<open>convert_units\<close>.
\<close>

definition parse_row ::
  "(string \<Rightarrow> real option) \<Rightarrow> (string \<Rightarrow> int option) \<Rightarrow> units \<Rightarrow> (string \<times> string) list
   \<Rightarrow> error + (element \<times> real option) list \<times> int" where
  "parse_row pyfloat strptime u row =
     (case parse_row_cells pyfloat row current_ELEMENTS of
        Inl e \<Rightarrow> Inl e
      | Inr els \<Rightarrow>
          (case map_of row DATE_COLUMN of
             None \<Rightarrow> Inl KeyError
           | Some d \<Rightarrow>
               (case map_of row HOUR_COLUMN of
                  None \<Rightarrow> Inl KeyError
                | Some h \<Rightarrow>
                    (case strptime (d @ '' '' @ h) of
                       None \<Rightarrow> Inl ValueError
                     | Some ts \<Rightarrow> Inr (convert_elements (current_CONVERTERS u) els, ts)))))"

fun current_rows ::
  "(string \<Rightarrow> real option) \<Rightarrow> (string \<Rightarrow> int option) \<Rightarrow> units \<Rightarrow> string \<Rightarrow> location
   \<Rightarrow> (string \<times> string) list list \<Rightarrow> current_record generator" where
  "current_rows pyfloat strptime u sid loc [] = ([], None)"
| "current_rows pyfloat strptime u sid loc (row # rows) =
     (case parse_row pyfloat strptime u row of
        Inl e \<Rightarrow> ([], Some e)
      | Inr (els, ts) \<Rightarrow>
          (let (records, raised) = current_rows pyfloat strptime u sid loc rows
           in (\<lparr>cur_observation_type = ''current'', cur_station_id = sid,
                cur_station_name = snd (snd (snd loc)), cur_lat = fst loc,
                cur_lon = fst (snd loc), cur_height = fst (snd (snd loc)),
                cur_timestamp = ts, cur_elements = els\<rparr> # records, raised)))"

text \<open>
  \<^verbatim>\<open>parse\<close> over the rows of the \<^verbatim>\<open>DictReader\<close>. \<^verbatim>\<open>next(reader)\<close> on an exhausted
  reader raises \<^verbatim>\<open>StopIteration\<close>, which a generator turns into \<^verbatim>\<open>RuntimeError\<close>.
\<close>

definition CurrentObservationsParser_parse ::
  "(string \<Rightarrow> real option) \<Rightarrow> (string \<Rightarrow> int option) \<Rightarrow> units \<Rightarrow> source_row list
   \<Rightarrow> real option \<Rightarrow> real option \<Rightarrow> real option \<Rightarrow> string option
   \<Rightarrow> (string \<times> string) list list \<Rightarrow> current_record generator" where
  "CurrentObservationsParser_parse pyfloat strptime u tbl a_lat a_lon a_height a_name reader =
     (case reader of
        [] \<Rightarrow> ([], Some RuntimeError)
      | first_row # after_first \<Rightarrow>
          (case map_of first_row DATE_COLUMN of
             None \<Rightarrow> ([], Some KeyError)
           | Some cell \<Rightarrow>
               (let sid = rstrip_underscore cell in
                case (case (a_lat, a_lon, a_height, a_name) of
                        (Some la, Some lo, Some he, Some na) \<Rightarrow> Inr (la, lo, he, na)
                      | _ \<Rightarrow> load_location tbl sid) of
                  Inl e \<Rightarrow> ([], Some e)
                | Inr loc \<Rightarrow>
                    (case after_first of
                       [] \<Rightarrow> ([], Some RuntimeError)
                     | header # rows \<Rightarrow> current_rows pyfloat strptime u sid loc rows))))"

section \<open>query.py\<close>

subsection \<open>sources\<close>

definition order_sources ::
  "postgres \<Rightarrow> (source_row \<Rightarrow> real) option \<Rightarrow> bool \<Rightarrow> source_row list \<Rightarrow> source_row list" where
  "order_sources pg distance ignore_type rows =
     (case distance of
        None \<Rightarrow> sort_key (\<lambda>s. type_order pg (src_observation_type s)) rows
      | Some d \<Rightarrow>
          if ignore_type then sort_key d rows
          else sort_key (\<lambda>s. (type_order pg (src_observation_type s), d s)) rows)"

text \<open>
  The query and the check of its result: the rows that satisfy \<^verbatim>\<open>where\<close>, ordered, each
  with its \<^verbatim>\<open>distance\<close> column in the geographic mode; \<^verbatim>\<open>LookupError\<close> when there are
  none.
\<close>

definition fetch_sources ::
  "postgres \<Rightarrow> source_row list \<Rightarrow> (source_row \<Rightarrow> bool) \<Rightarrow> (source_row \<Rightarrow> real) option \<Rightarrow> bool
   \<Rightarrow> error + (source_row \<times> real option) list" where
  "fetch_sources pg tbl wh distance ignore_type =
     (let rows = order_sources pg distance ignore_type (filter wh tbl)
      in if rows = [] then Inl LookupError
         else Inr (map (\<lambda>s. (s, map_option (\<lambda>d. d s) distance)) rows))"

definition sources ::
  "postgres \<Rightarrow> source_row list \<Rightarrow> real option \<Rightarrow> real option \<Rightarrow> string option \<Rightarrow> string option
   \<Rightarrow> int option \<Rightarrow> real \<Rightarrow> bool \<Rightarrow> error + (source_row \<times> real option) list" where
  "sources pg tbl a_lat a_lon dwd_station_id wmo_station_id source_id max_dist ignore_type =
     (if source_id \<noteq> None
      then fetch_sources pg tbl (\<lambda>s. Some (src_id s) = source_id) None ignore_type
      else if dwd_station_id \<noteq> None
      then fetch_sources pg tbl (\<lambda>s. src_dwd_station_id s = dwd_station_id) None ignore_type
      else if wmo_station_id \<noteq> None
      then fetch_sources pg tbl (\<lambda>s. src_wmo_station_id s = wmo_station_id) None ignore_type
      else
        (case (a_lat, a_lon) of
           (Some la, Some lo) \<Rightarrow>
             fetch_sources pg tbl
               (\<lambda>s. earth_box_contains pg la lo max_dist (src_lat s) (src_lon s) \<and>
                     earth_distance pg la lo (src_lat s) (src_lon s) < max_dist)
               (Some (\<lambda>s. earth_distance pg la lo (src_lat s) (src_lon s))) ignore_type
         | _ \<Rightarrow> Inl ValueError))"

subsection \<open>The weather query\<close>

text \<open>The argument \<^verbatim>\<open>source_id\<close> of \<^verbatim>\<open>_weather\<close>: one id, or a list of ids.\<close>

datatype source_ids = Single int | Many "int list"

text \<open>\<^verbatim>\<open>array_position\<close>: the 1-based place of the first occurrence, \<^verbatim>\<open>NULL\<close> without one.\<close>

fun array_position :: "int list \<Rightarrow> int \<Rightarrow> nat option" where
  "array_position [] x = None"
| "array_position (y # ys) x =
     (if x = y then Some 1 else map_option Suc (array_position ys x))"

text \<open>The \<^verbatim>\<open>WHERE\<close> clause; \<^verbatim>\<open>BETWEEN\<close> includes both bounds.\<close>

definition where_clause :: "int \<Rightarrow> int \<Rightarrow> source_ids \<Rightarrow> element list \<Rightarrow> weather_row \<Rightarrow> bool" where
  "where_clause date last_date sid not_null r =
     (date \<le> w_timestamp r \<and> w_timestamp r \<le> last_date \<and>
      (case sid of Many ids \<Rightarrow> w_source_id r \<in> set ids | Single s \<Rightarrow> w_source_id r = s) \<and>
      list_all (\<lambda>el. w_elements r el \<noteq> None) not_null)"

text \<open>
  The \<^verbatim>\<open>ORDER BY\<close> key: the timestamp, then for a list of ids the place of the row's
  source in it (an ascending order puts \<^verbatim>\<open>NULL\<close> last).
\<close>

definition order_by :: "source_ids \<Rightarrow> weather_row \<Rightarrow> int \<times> nat" where
  "order_by sid r =
     (w_timestamp r,
      case sid of
        Single s \<Rightarrow> 0
      | Many ids \<Rightarrow>
          (case array_position ids (w_source_id r) of
             Some k \<Rightarrow> k
           | None \<Rightarrow> Suc (length ids)))"

text \<open>\<^verbatim>\<open>DISTINCT ON (timestamp)\<close>: of the ordered rows, the first of every timestamp.\<close>

function distinct_on_timestamp :: "weather_row list \<Rightarrow> weather_row list" where
  "distinct_on_timestamp [] = []"
| "distinct_on_timestamp (r # rs) =
     r # distinct_on_timestamp (filter (\<lambda>x. w_timestamp x \<noteq> w_timestamp r) rs)"
  by pat_completeness auto
termination
  by (relation "measure length") (auto simp: less_Suc_eq_le)

definition weather_query ::
  "weather_row list \<Rightarrow> int \<Rightarrow> int \<Rightarrow> source_ids \<Rightarrow> element list \<Rightarrow> weather_row list" where
  "weather_query tbl date last_date sid not_null =
     distinct_on_timestamp
       (sort_key (order_by sid) (filter (where_clause date last_date sid not_null) tbl))"

subsection \<open>The fallback fill\<close>

definition missing_row_fields :: "weather_row \<Rightarrow> element list" where
  "missing_row_fields row = filter (\<lambda>k. w_elements row k = None) all_elements"

definition incomplete_rows :: "weather_row list \<Rightarrow> (weather_row \<times> element list) list" where
  "incomplete_rows weather_rows =
     filter (\<lambda>(row, row_fields). row_fields \<noteq> [])
       (map (\<lambda>row. (row, missing_row_fields row)) weather_rows)"

definition missing_fields :: "weather_row list \<Rightarrow> element list" where
  "missing_fields weather_rows = remdups (concat (map snd (incomplete_rows weather_rows)))"

text \<open>
  The body of the inner loop: the row takes the field and the source id of the fallback
  row.
\<close>

definition fill_field :: "weather_row \<Rightarrow> element \<Rightarrow> weather_row \<Rightarrow> weather_row" where
  "fill_field fallback_row f r =
     r\<lparr>w_elements := (w_elements r)(f := w_elements fallback_row f),
       fallback_source_ids :=
         map_option (\<lambda>m. m(f \<mapsto> w_source_id fallback_row)) (fallback_source_ids r)\<rparr>"

text \<open>The inner loop over the missing fields of one row, after the key is set to \<^verbatim>\<open>{}\<close>.\<close>

definition fill_row :: "weather_row \<Rightarrow> element list \<Rightarrow> weather_row \<Rightarrow> weather_row" where
  "fill_row fallback_row row_fields row =
     fold (fill_field fallback_row) row_fields (row\<lparr>fallback_source_ids := Some Map.empty\<rparr>)"

definition fallback_rows ::
  "weather_row list \<Rightarrow> int \<Rightarrow> int \<Rightarrow> int list \<Rightarrow> element list \<Rightarrow> (int \<rightharpoonup> weather_row)" where
  "fallback_rows tbl min_date max_date ids not_null =
     fold (\<lambda>row d. d(w_timestamp row \<mapsto> row))
       (weather_query tbl min_date max_date (Many ids) not_null) Map.empty"

text \<open>
  \<^verbatim>\<open>_fill_missing_fields\<close> changes the rows of \<^verbatim>\<open>weather_rows\<close> in place; the model
  returns the list after the call. Its arguments \<^verbatim>\<open>date\<close> and \<^verbatim>\<open>last_date\<close> are not read.
\<close>

definition fill_missing_fields ::
  "weather_row list \<Rightarrow> weather_row list \<Rightarrow> int \<Rightarrow> int \<Rightarrow> int list \<Rightarrow> weather_row list" where
  "fill_missing_fields tbl weather_rows date last_date ids =
     (let incomplete = incomplete_rows weather_rows in
      if incomplete = [] then weather_rows
      else
        (let min_date = w_timestamp (fst (hd incomplete));
             max_date = w_timestamp (fst (last incomplete));
             fallback = fallback_rows tbl min_date max_date ids (missing_fields weather_rows)
         in map (\<lambda>row.
                  if missing_row_fields row = [] then row
                  else (case fallback (w_timestamp row) of
                          None \<Rightarrow> row
                        | Some fallback_row \<Rightarrow> fill_row fallback_row (missing_row_fields row) row))
              weather_rows))"

subsection \<open>weather\<close>

text \<open>The returned dict: the key \<^verbatim>\<open>weather\<close>, and the key \<^verbatim>\<open>sources\<close> when it is set.\<close>

record weather_result =
  weather_key :: "weather_row list"
  sources_key :: "(source_row \<times> real option) list option"

definition used_source_ids :: "weather_row list \<Rightarrow> int list" where
  "used_source_ids weather_rows =
     map w_source_id weather_rows @
     concat (map (\<lambda>row. case fallback_source_ids row of
                           None \<Rightarrow> []
                         | Some m \<Rightarrow> List.map_filter m all_elements) weather_rows)"

definition weather ::
  "postgres \<Rightarrow> database \<Rightarrow> int \<Rightarrow> int option \<Rightarrow> real option \<Rightarrow> real option \<Rightarrow> string option
   \<Rightarrow> string option \<Rightarrow> int option \<Rightarrow> real \<Rightarrow> bool \<Rightarrow> error + weather_result" where
  "weather pg db date last_date a_lat a_lon dwd_station_id wmo_station_id source_id max_dist
     fallback =
     (let last_date' = (case last_date of None \<Rightarrow> date + 86400 | Some d \<Rightarrow> d) in
      case source_id of
        Some sid \<Rightarrow>
          (let rows = weather_query (weather_tbl db) date last_date' (Single sid) [] in
           if rows = []
           then (case sources pg (sources_tbl db) None None None None (Some sid) 50000 False of
                   Inl e \<Rightarrow> Inl e
                 | Inr _ \<Rightarrow> Inr \<lparr>weather_key = rows, sources_key = None\<rparr>)
           else Inr \<lparr>weather_key = rows, sources_key = None\<rparr>)
      | None \<Rightarrow>
          (case sources pg (sources_tbl db) a_lat a_lon dwd_station_id wmo_station_id None
                  max_dist False of
             Inl e \<Rightarrow> Inl e
           | Inr sources_rows \<Rightarrow>
               (let ids = map (src_id \<circ> fst) sources_rows;
                    weather_rows = weather_query (weather_tbl db) date last_date' (Many ids) [];
                    weather_rows' =
                      (if fallback
                       then fill_missing_fields (weather_tbl db) weather_rows date last_date' ids
                       else weather_rows)
                in Inr \<lparr>weather_key = weather_rows',
                        sources_key =
                          Some (filter (\<lambda>s. src_id (fst s) \<in> set (used_source_ids weather_rows'))
                                  sources_rows)\<rparr>)))"

section \<open>Example inputs\<close>

text \<open>A MOSMIX record of station 01001 with the given precipitation and wind direction.\<close>

definition mosmix_example :: "real option \<Rightarrow> real option \<Rightarrow> mosmix_record" where
  "mosmix_example p w =
     \<lparr>observation_type = ''forecast'', source = ''MOSMIX:2020-04-01T09:00:00.000Z'',
      station_id = ''01001'', station_name = ''JAN MAYEN'', lat = 70.93, lon = -8.67,
      height = 10, timestamp = 1585731600, temperature = Some 270.15, wind_direction = w,
      wind_speed = Some 8.75, precipitation = p, sunshine = None,
      pressure_msl = Some 101080\<rparr>"

text \<open>A listing of one file, and the ledger row written once the file is parsed.\<close>

definition example_file :: file_info where
  "example_file =
     \<lparr>url = ''https://opendata.dwd.de/weather/weather_reports/poi/01001-BEOB.csv'',
      parser = ''CurrentObservationsParser'', last_modified = 1585731600, file_size = 7636\<rparr>"

definition example_poll_url :: "string \<Rightarrow> file_info list" where
  "example_poll_url u =
     (if u = ''https://opendata.dwd.de/weather/weather_reports/poi/'' then [example_file]
      else [])"

definition example_ledger :: "parsed_file list" where
  "example_ledger =
     [\<lparr>pf_url = ''https://opendata.dwd.de/weather/weather_reports/poi/01001-BEOB.csv'',
       pf_last_modified = 1585731600, pf_file_size = 7636, pf_parsed_at = 1585731700\<rparr>]"

text \<open>
  The converters by their names, \<^verbatim>\<open>float\<close> on the literals the examples use, and
  \<^verbatim>\<open>strptime\<close> on the one date they use.
\<close>

definition example_units :: units where
  "example_units =
     \<lparr>celsius_to_kelvin = (\<lambda>x. x + 273.15), hpa_to_pa = (\<lambda>x. x * 100),
      kmh_to_ms = (\<lambda>x. x / 3.6), minutes_to_seconds = (\<lambda>x. x * 60)\<rparr>"

definition example_float :: "string \<Rightarrow> real option" where
  "example_float s =
     map_of [(''-0.1'', - 0.1), (''0.0'', 0), (''23.5'', 23.5), (''270'', 270),
             (''18.0'', 18), (''1013.2'', 1013.2)] s"

definition example_strptime :: "string \<Rightarrow> int option" where
  "example_strptime s = map_of [(''01.04.20 09:00'', 1585731600)] s"

text \<open>
  A current-observations file of station 01001: the row of the station id, the row of
  German titles, and one hour with a precipitation cell of \<^verbatim>\<open>-0,1\<close>.
\<close>

definition example_current_file :: "(string \<times> string) list list" where
  "example_current_file =
     [[(''surface observations'', ''01001_''), (''Parameter description'', '''')],
      [(''surface observations'', ''Datum''), (''Parameter description'', ''Uhrzeit (UTC)'')],
      [(''surface observations'', ''01.04.20''), (''Parameter description'', ''09:00''),
       (''dry_bulb_temperature_at_2_meter_above_ground'', ''23,5''),
       (''mean_wind_direction_during_last_10 min_at_10_meters_above_ground'', ''270''),
       (''mean_wind_speed_during last_10_min_at_10_meters_above_ground'', ''18,0''),
       (''precipitation_amount_last_hour'', ''-0,1''),
       (''pressure_reduced_to_mean_sea_level'', ''1013,2''),
       (''total_time_of_sunshine_during_last_hour'', ''---'')]]"

definition example_source :: "int \<Rightarrow> string \<Rightarrow> string \<Rightarrow> source_row" where
  "example_source i kind code =
     \<lparr>src_id = i, src_dwd_station_id = Some code, src_wmo_station_id = None,
      src_station_name = ''JAN MAYEN'', src_observation_type = kind, src_lat = 70.93,
      src_lon = - 8.67, src_height = 10\<rparr>"

text \<open>
  An archive of hourly precipitation of station 00044, its geography file in the order
  1990, 2000, 1995, and one product row of 1997-01-01 00:00 with \<^verbatim>\<open>R1 = -0.1\<close>.
\<close>

definition example_geography :: "geography_row list" where
  "example_geography =
     [\<lparr>von_datum = 631152000, Geogr_Breite = 52.93, Geogr_Laenge = 8.23,
       Stationshoehe = 44, Stationsname = ''Grossenkneten A''\<rparr>,
      \<lparr>von_datum = 946684800, Geogr_Breite = 52.94, Geogr_Laenge = 8.24,
       Stationshoehe = 45, Stationsname = ''Grossenkneten B''\<rparr>,
      \<lparr>von_datum = 788918400, Geogr_Breite = 52.95, Geogr_Laenge = 8.25,
       Stationshoehe = 46, Stationsname = ''Grossenkneten C''\<rparr>]"

definition example_zip :: zipfile where
  "example_zip =
     [(''Metadaten_Geographie_00044.txt'', Geography example_geography),
      (''Metadaten_Parameter_rr_stunde_00044.txt'', Other),
      (''produkt_rr_stunde_19900101_20191231_00044.txt'',
       Product [\<lparr>MESS_DATUM = 852076800,
                 cells = [(''STATIONS_ID'', ''         44''), (''  R1'', ''-0.1'')]\<rparr>])]"

definition example_parser :: observations_parser where
  "example_parser =
     PrecipitationObservationsParser
       (''https://opendata.dwd.de/climate_environment/CDC/observations_germany/climate/'' @
        ''hourly/precipitation/historical/stundenwerte_RR_00044_19900101_20191231_hist.zip'')
       ''/tmp/stundenwerte_RR_00044_19900101_20191231_hist.zip''"

definition example_settings :: settings where
  "example_settings = \<lparr>MIN_DATE = 0, MAX_DATE = None\<rparr>"

text \<open>An ignored-values file that lists the value of the product row above.\<close>

definition example_ignored :: ignored_values where
  "example_ignored = [(parser_url example_parser, [(852076800, [(Precipitation, - 0.1)])])]"

definition example_observation :: observation where
  "example_observation =
     \<lparr>obs_source = ''Observations:Recent:produkt_rr_stunde_19900101_20191231_00044.txt'',
      obs_lat = 52.93, obs_lon = 8.23, obs_height = 44,
      obs_station_name = ''Grossenkneten A'', obs_timestamp = 852076800,
      obs_elements = [(Precipitation, Some (- 0.1))]\<rparr>"

definition example_history :: "(int \<times> location) list" where
  "example_history =
     [(631152000, (52.93, 8.23, 44, ''Grossenkneten A'')),
      (946684800, (52.94, 8.24, 45, ''Grossenkneten B'')),
      (788918400, (52.95, 8.25, 46, ''Grossenkneten C''))]"

text \<open>The same archive with the geography file in ascending order: 1990, 1995, 2000.\<close>

definition sorted_geography :: "geography_row list" where
  "sorted_geography =
     [\<lparr>von_datum = 631152000, Geogr_Breite = 52.93, Geogr_Laenge = 8.23,
       Stationshoehe = 44, Stationsname = ''Grossenkneten A''\<rparr>,
      \<lparr>von_datum = 788918400, Geogr_Breite = 52.95, Geogr_Laenge = 8.25,
       Stationshoehe = 46, Stationsname = ''Grossenkneten C''\<rparr>,
      \<lparr>von_datum = 946684800, Geogr_Breite = 52.94, Geogr_Laenge = 8.24,
       Stationshoehe = 45, Stationsname = ''Grossenkneten B''\<rparr>]"

definition sorted_zip :: zipfile where
  "sorted_zip =
     [(''Metadaten_Geographie_00044.txt'', Geography sorted_geography),
      (''produkt_rr_stunde_19900101_20191231_00044.txt'',
       Product [\<lparr>MESS_DATUM = 852076800,
                 cells = [(''STATIONS_ID'', ''         44''), (''  R1'', ''-0.1'')]\<rparr>])]"

definition sorted_history :: "(int \<times> location) list" where
  "sorted_history =
     [(631152000, (52.93, 8.23, 44, ''Grossenkneten A'')),
      (788918400, (52.95, 8.25, 46, ''Grossenkneten C'')),
      (946684800, (52.94, 8.24, 45, ''Grossenkneten B''))]"

definition sorted_observation :: observation where
  "sorted_observation =
     \<lparr>obs_source = ''Observations:Recent:produkt_rr_stunde_19900101_20191231_00044.txt'',
      obs_lat = 52.95, obs_lon = 8.25, obs_height = 46,
      obs_station_name = ''Grossenkneten C'', obs_timestamp = 852076800,
      obs_elements = [(Precipitation, Some (- 0.1))]\<rparr>"

text \<open>A sources table without a forecast row of station 01001, and one with it.\<close>

definition sources_without_forecast :: "source_row list" where
  "sources_without_forecast =
     [example_source 1 ''current'' ''01001'', example_source 2 ''forecast'' ''01002'']"

definition sources_with_forecast :: "source_row list" where
  "sources_with_forecast = [example_source 1 ''forecast'' ''01001'']"

text \<open>
  The enum in the order of preference the specification gives, and earth-distance
  functions the examples do not reach (they query by station or source id).
\<close>

definition example_pg :: postgres where
  "example_pg =
     \<lparr>type_order = (\<lambda>t. if t = ''current'' then 0 else if t = ''recent'' then 1
                        else if t = ''historical'' then 2 else 3),
      earth_distance = (\<lambda>la lo la' lo'. 0),
      earth_box_contains = (\<lambda>la lo d la' lo'. True)\<rparr>"

definition measurements ::
  "real option \<Rightarrow> real option \<Rightarrow> real option \<Rightarrow> real option \<Rightarrow> real option \<Rightarrow> real option
   \<Rightarrow> element \<Rightarrow> real option" where
  "measurements te wd ws pr su pm el =
     (case el of
        Temperature \<Rightarrow> te | Wind_direction \<Rightarrow> wd | Wind_speed \<Rightarrow> ws
      | Precipitation \<Rightarrow> pr | Sunshine \<Rightarrow> su | Pressure_msl \<Rightarrow> pm)"

text \<open>
  Source 1 with a row at every full hour from 2020-04-01 00:00 to 2020-04-02 00:00, both
  included.
\<close>

definition hourly_table :: "weather_row list" where
  "hourly_table =
     map (\<lambda>k. \<lparr>w_timestamp = 1585699200 + 3600 * int k, w_source_id = 1,
               w_elements = measurements (Some 280) None None None None None,
               fallback_source_ids = None\<rparr>) [0..<25]"

definition hourly_db :: database where
  "hourly_db =
     \<lparr>sources_tbl = [example_source 1 ''forecast'' ''01001''], weather_tbl = hourly_table\<rparr>"

text \<open>
  Station 01001 at 2020-04-01 12:00 under two sources: the current observation (id 1),
  which lacks the pressure, and the forecast (id 2). In \<open>complete_db\<close> the forecast row
  holds every field the observation lacks; in \<open>partial_db\<close> the observation also lacks
  the sunshine, and the forecast row holds the pressure but no sunshine.
\<close>

definition two_sources :: "source_row list" where
  "two_sources = [example_source 2 ''forecast'' ''01001'', example_source 1 ''current'' ''01001'']"

definition complete_db :: database where
  "complete_db =
     \<lparr>sources_tbl = two_sources,
      weather_tbl =
        [\<lparr>w_timestamp = 1585742400, w_source_id = 2,
          w_elements = measurements (Some 281) (Some 250) (Some 6) (Some 0) (Some 1200)
                         (Some 101320),
          fallback_source_ids = None\<rparr>,
         \<lparr>w_timestamp = 1585742400, w_source_id = 1,
          w_elements = measurements (Some 280) (Some 270) (Some 5) (Some 0) (Some 600) None,
          fallback_source_ids = None\<rparr>]\<rparr>"

definition partial_db :: database where
  "partial_db =
     \<lparr>sources_tbl = two_sources,
      weather_tbl =
        [\<lparr>w_timestamp = 1585742400, w_source_id = 2,
          w_elements = measurements (Some 281) (Some 250) (Some 6) (Some 0) None
                         (Some 101320),
          fallback_source_ids = None\<rparr>,
         \<lparr>w_timestamp = 1585742400, w_source_id = 1,
          w_elements = measurements (Some 280) (Some 270) (Some 5) (Some 0) None None,
          fallback_source_ids = None\<rparr>]\<rparr>"

section \<open>Properties of MOSMIXParser.sanitize_records\<close>

lemma sanitize_step_wind_direction:
  "wind_direction (fst (sanitize_step r)) =
     (case wind_direction r of
        None \<Rightarrow> None
      | Some w \<Rightarrow> if w > 360 then Some (w - 360) else Some w)"
  by (auto simp: sanitize_step_def fix_precipitation_def fix_wind_direction_def truthy_def
      split: option.splits)

lemma sanitize_step_precipitation:
  "precipitation (fst (sanitize_step r)) =
     (case precipitation r of
        None \<Rightarrow> None
      | Some p \<Rightarrow> if p < 0 then None else Some p)"
  by (auto simp: sanitize_step_def fix_precipitation_def fix_wind_direction_def truthy_def
      split: option.splits)

lemma sanitize_records_nth:
  "i < length records \<Longrightarrow>
   fst (sanitize_records records) ! i = fst (sanitize_step (records ! i))"
  by (simp add: sanitize_records_def)

lemma sanitize_records_length:
  "length (fst (sanitize_records records)) = length records"
  by (simp add: sanitize_records_def)

text \<open>
  C2, as the claim states it, fails: a wind direction of 800 leaves
  \<^verbatim>\<open>sanitize_records\<close> as 440, neither null nor below 360.
\<close>

theorem wind_direction_800_not_nulled:
  "wind_direction (fst (sanitize_records [mosmix_example None (Some 800)]) ! 0) = Some 440"
  by (simp add: sanitize_records_nth sanitize_step_wind_direction mosmix_example_def)

text \<open>
  C2 (amended): \<^verbatim>\<open>MOSMIXParser.sanitize_records\<close> yields one record per record it is
  given, and the wind direction of the \<open>i\<close>-th is: null when it was null; unchanged when it
  was in \<open>[0, 360)\<close>; folded by subtracting 360, to a value in \<open>(0, 360)\<close>, when it was in
  \<open>(360, 720)\<close>. No value is nulled: one below 0 is yielded unchanged, one from 720 on is
  yielded less 360.
\<close>

theorem mosmix_wind_direction_folded:
  assumes "i < length records"
  shows "length (fst (sanitize_records records)) = length records \<and>
    (case wind_direction (records ! i) of
       None \<Rightarrow> wind_direction (fst (sanitize_records records) ! i) = None
     | Some w \<Rightarrow>
         wind_direction (fst (sanitize_records records) ! i) \<noteq> None \<and>
         (0 \<le> w \<and> w < 360 \<longrightarrow>
            wind_direction (fst (sanitize_records records) ! i) = Some w) \<and>
         (360 < w \<and> w < 720 \<longrightarrow>
            wind_direction (fst (sanitize_records records) ! i) = Some (w - 360) \<and>
            0 < w - 360 \<and> w - 360 < 360) \<and>
         (w < 0 \<longrightarrow> wind_direction (fst (sanitize_records records) ! i) = Some w) \<and>
         (720 \<le> w \<longrightarrow>
            wind_direction (fst (sanitize_records records) ! i) = Some (w - 360)))"
  using assms
  by (auto simp: sanitize_records_nth sanitize_records_length sanitize_step_wind_direction
      split: option.splits)

text \<open>The fold of the specification's scenario: 370 is yielded as 10.\<close>

theorem mosmix_wind_direction_370:
  "wind_direction (fst (sanitize_records [mosmix_example None (Some 370)]) ! 0) = Some 10"
  using mosmix_wind_direction_folded [of 0 "[mosmix_example None (Some 370)]"]
  by (simp add: mosmix_example_def)

section \<open>Properties of DWDPoller.poll\<close>

lemma poll_filter:
  "poll poll_url urls rows =
     filter (\<lambda>fi. parsed_files rows (url fi) \<noteq> Some (fingerprint fi))
       (concat (map poll_url urls))"
  unfolding poll_def by (induction urls) simp_all

text \<open>
  C3: of the files \<^verbatim>\<open>poll_url\<close> yields for the seed urls (the files of the listing with
  a parser that does not skip them, \<^verbatim>\<open>polling.py\<close> line 78), \<^verbatim>\<open>poll\<close> yields exactly
  those, in order, for which the ledger has no entry under the file's url or an entry
  other than the file's \<open>(last_modified, file_size)\<close>. Hence over a ledger that holds the
  fingerprint of every listed file, \<^verbatim>\<open>poll\<close> yields nothing.
\<close>

theorem poll_emits_changed_files:
  "poll poll_url urls rows =
     filter (\<lambda>fi. parsed_files rows (url fi) = None \<or>
                  parsed_files rows (url fi) \<noteq> Some (last_modified fi, file_size fi))
       (concat (map poll_url urls)) \<and>
   ((\<forall>fi \<in> set (concat (map poll_url urls)).
       parsed_files rows (url fi) = Some (last_modified fi, file_size fi))
    \<longrightarrow> poll poll_url urls rows = [])"
proof -
  have same: "(\<lambda>fi. parsed_files rows (url fi) \<noteq> Some (fingerprint fi)) =
      (\<lambda>fi. parsed_files rows (url fi) = None \<or>
            parsed_files rows (url fi) \<noteq> Some (last_modified fi, file_size fi))"
    by (auto simp: fingerprint_def)
  show ?thesis
    unfolding poll_filter same by (auto simp: filter_empty_conv)
qed

text \<open>
  A first poll over an empty ledger yields the listed file; a second poll over the same
  listing, once the ledger holds the file's fingerprint, yields nothing.
\<close>

theorem poll_twice_example:
  "poll example_poll_url [''https://opendata.dwd.de/weather/weather_reports/poi/''] []
     = [example_file] \<and>
   poll example_poll_url [''https://opendata.dwd.de/weather/weather_reports/poi/'']
     example_ledger = []"
  using
    poll_emits_changed_files [of example_poll_url
      "[''https://opendata.dwd.de/weather/weather_reports/poi/'']" example_ledger]
    poll_emits_changed_files [of example_poll_url
      "[''https://opendata.dwd.de/weather/weather_reports/poi/'']" "[]"]
  by (simp add: example_poll_url_def example_ledger_def example_file_def parsed_files_def)

section \<open>Properties of ObservationsParser\<close>

subsection \<open>The example archive\<close>

lemma example_station_id: "parse_station_id example_zip = Inr ''00044''"
  by (simp add: parse_station_id_def namelist_def example_zip_def match_station_id_def
      is_digit_def)

lemma example_observation_type: "parse_observation_type example_parser = Inr ''historical''"
  by (simp add: parse_observation_type_def example_parser_def
      PrecipitationObservationsParser_def basename_def suffix_def)

lemma example_lat_lon_history: "parse_lat_lon_history example_zip ''00044'' = Inr example_history"
  by (simp add: parse_lat_lon_history_def example_zip_def example_geography_def
      example_history_def)

lemma strip_example_cell: "strip ''-0.1'' = ''-0.1''"
  by (simp add: strip_def whitespace_def)

lemma example_parse_records:
  "parse_records example_settings example_float example_parser example_zip example_history
     = ([example_observation], None)"
  by (simp add: parse_records_def namelist_def example_zip_def example_settings_def
      example_parser_def PrecipitationObservationsParser_def parse_elements_def
      strip_example_cell example_float_def convert_elements_def example_observation_def
      example_history_def)

lemma sorted_lat_lon_history: "parse_lat_lon_history sorted_zip ''00044'' = Inr sorted_history"
  by (simp add: parse_lat_lon_history_def sorted_zip_def sorted_geography_def
      sorted_history_def)

lemma sorted_parse_records:
  "parse_records example_settings example_float example_parser sorted_zip sorted_history
     = ([sorted_observation], None)"
  by (simp add: parse_records_def namelist_def sorted_zip_def example_settings_def
      example_parser_def PrecipitationObservationsParser_def parse_elements_def
      strip_example_cell example_float_def convert_elements_def sorted_observation_def
      sorted_history_def)

subsection \<open>The location history\<close>

lemma select_location_all_later:
  "\<forall>(d, l) \<in> set h. ts < d \<Longrightarrow> select_location h ts bound = bound"
  by (cases h) auto

text \<open>
  Over a history in strictly ascending order that has an entry at or before the
  timestamp, the loop ends on the entry with the greatest date at or before it, whatever
  was bound before.
\<close>

lemma select_location_sorted:
  "sorted_wrt (<) (map fst h) \<Longrightarrow> (d, l) \<in> set h \<Longrightarrow> d \<le> ts \<Longrightarrow>
   \<exists>(d', l') \<in> set h. d' \<le> ts \<and> (\<forall>(d'', l'') \<in> set h. d'' \<le> ts \<longrightarrow> d'' \<le> d') \<and>
      select_location h ts bound = Some l'"
proof (induction h arbitrary: bound d l)
  case Nil
  then show ?case by simp
next
  case (Cons e rest)
  obtain d0 l0 where e: "e = (d0, l0)" by (cases e)
  from Cons.prems(1) have later: "\<forall>x \<in> set rest. d0 < fst x"
    and sorted_rest: "sorted_wrt (<) (map fst rest)"
    by (auto simp: e)
  have d0: "d0 \<le> ts"
    using Cons.prems(2,3) later by (auto simp: e)
  show ?case
  proof (cases "\<exists>(d1, l1) \<in> set rest. d1 \<le> ts")
    case True
    then obtain d1 l1 where "(d1, l1) \<in> set rest" "d1 \<le> ts" by auto
    from Cons.IH [OF sorted_rest this, of "Some l0"]
    obtain d' l' where *: "(d', l') \<in> set rest" "d' \<le> ts"
      "\<forall>(d'', l'') \<in> set rest. d'' \<le> ts \<longrightarrow> d'' \<le> d'"
      "select_location rest ts (Some l0) = Some l'" by auto
    have "d0 \<le> d'" using later *(1) by fastforce
    with * d0 show ?thesis
      by (intro bexI [of _ "(d', l')"]) (auto simp: e)
  next
    case False
    then have "\<forall>(d1, l1) \<in> set rest. ts < d1" by fastforce
    then have "select_location rest ts (Some l0) = Some l0"
      by (rule select_location_all_later)
    with False d0 show ?thesis
      by (intro bexI [of _ "(d0, l0)"]) (auto simp: e)
  qed
qed

lemma dict_set_keys: "fst ` set (dict_set h k v) = insert k (fst ` set h)"
  by (induction h k v rule: dict_set.induct) auto

lemma dict_set_subset: "set (dict_set h k v) \<subseteq> insert (k, v) (set h)"
  by (induction h k v rule: dict_set.induct) auto

lemma map_of_dict_set: "map_of (dict_set h k v) = (map_of h)(k \<mapsto> v)"
  by (induction h k v rule: dict_set.induct) auto

lemma dict_set_sorted:
  "sorted_wrt (<) (map fst h) \<Longrightarrow> \<forall>k' \<in> fst ` set h. k' \<le> k \<Longrightarrow>
   sorted_wrt (<) (map fst (dict_set h (k::int) v))"
proof (induction h k v rule: dict_set.induct)
  case (1 k v)
  then show ?case by simp
next
  case (2 k' v' kvs k v)
  show ?case
  proof (cases "k' = k")
    case True
    with 2 show ?thesis by auto
  next
    case False
    with 2 have "sorted_wrt (<) (map fst (dict_set kvs k v))" by auto
    moreover have "\<forall>x \<in> set (dict_set kvs k v). k' < fst x"
    proof
      fix x assume "x \<in> set (dict_set kvs k v)"
      then have "fst x \<in> insert k (fst ` set kvs)"
        using dict_set_keys [of kvs k v] by blast
      with 2 False show "k' < fst x" by auto
    qed
    ultimately show ?thesis using False by auto
  qed
qed

text \<open>
  The history of a geography file in ascending order: its dates strictly ascending, the
  dates of the file, each entry the entry of one of its rows.
\<close>

lemma history_of_sorted:
  "sorted (map von_datum rows) \<Longrightarrow>
   sorted_wrt (<) (map fst
     (fold (\<lambda>row history. dict_set history (von_datum row) (snd (geo_entry row))) rows [])) \<and>
   fst ` set (fold (\<lambda>row history. dict_set history (von_datum row) (snd (geo_entry row))) rows [])
     = von_datum ` set rows \<and>
   set (fold (\<lambda>row history. dict_set history (von_datum row) (snd (geo_entry row))) rows [])
     \<subseteq> geo_entry ` set rows"
proof (induction rows rule: rev_induct)
  case Nil
  then show ?case by simp
next
  case (snoc x xs)
  let ?h = "fold (\<lambda>row history. dict_set history (von_datum row) (snd (geo_entry row))) xs []"
  from snoc.prems have sx: "sorted (map von_datum xs)"
    and le: "\<forall>y \<in> set xs. von_datum y \<le> von_datum x"
    by (auto simp: sorted_append)
  from snoc.IH [OF sx] have ih: "sorted_wrt (<) (map fst ?h)"
    "fst ` set ?h = von_datum ` set xs" "set ?h \<subseteq> geo_entry ` set xs"
    by auto
  have 1: "sorted_wrt (<) (map fst (dict_set ?h (von_datum x) (snd (geo_entry x))))"
    using ih(1,2) le by (intro dict_set_sorted) auto
  have 2: "fst ` set (dict_set ?h (von_datum x) (snd (geo_entry x))) = von_datum ` set (xs @ [x])"
    using ih(2) by (simp add: dict_set_keys)
  have 3: "set (dict_set ?h (von_datum x) (snd (geo_entry x))) \<subseteq> geo_entry ` set (xs @ [x])"
    using dict_set_subset [of ?h "von_datum x" "snd (geo_entry x)"] ih(3)
    by (auto simp: geo_entry_def)
  show ?case using 1 2 3 by simp
qed

lemma parse_rows_location:
  "rec \<in> set (fst (parse_rows st pyfloat p filename h bound rows)) \<Longrightarrow>
   \<exists>b. select_location h (obs_timestamp rec) b =
        Some (obs_lat rec, obs_lon rec, obs_height rec, obs_station_name rec)"
proof (induction rows arbitrary: bound)
  case Nil
  then show ?case by simp
next
  case (Cons row rows)
  then show ?case
    by (auto simp: Let_def split: if_splits option.splits sum.splits prod.splits)
      (metis fst_conv)+
qed

lemma parse_records_location:
  "rec \<in> set (fst (parse_records st pyfloat p zf h)) \<Longrightarrow>
   \<exists>b. select_location h (obs_timestamp rec) b =
        Some (obs_lat rec, obs_lon rec, obs_height rec, obs_station_name rec)"
  by (auto simp: parse_records_def Let_def dest: parse_rows_location
      split: if_splits option.splits member.splits)

text \<open>
  C6, as the claim states it, fails: with the geography file in the order 1990, 2000,
  1995, the row of 1997 gets the location of 1990 (the loop stops at the entry of 2000),
  while the entry with the greatest date at or before 1997 is that of 1995.
\<close>

theorem location_of_unsorted_history:
  "parse_lat_lon_history example_zip ''00044'' = Inr example_history \<and>
   map (\<lambda>r. (obs_timestamp r, obs_station_name r))
     (fst (parse_records example_settings example_float example_parser example_zip
        example_history)) = [(852076800, ''Grossenkneten A'')] \<and>
   map (\<lambda>g. (von_datum g, Stationsname g)) (filter (\<lambda>g. von_datum g \<le> 852076800)
     example_geography) = [(631152000, ''Grossenkneten A''), (788918400, ''Grossenkneten C'')]"
  by (simp add: example_lat_lon_history example_parse_records)
    (simp add: example_observation_def example_geography_def)

text \<open>
  C6 (amended): when the entries of the geography file appear in ascending order of
  \<open>von_datum\<close>, every record \<^verbatim>\<open>parse_records\<close> yields whose timestamp is at or after
  some entry's \<open>von_datum\<close> has the \<open>(lat, lon, height, station_name)\<close> of an entry with
  the greatest \<open>von_datum\<close> at or before the timestamp.
\<close>

theorem location_of_ascending_history:
  assumes geo: "map_of zf (''Metadaten_Geographie_'' @ sid @ ''.txt'') = Some (Geography geo)"
    and asc: "sorted (map von_datum geo)"
    and hist: "parse_lat_lon_history zf sid = Inr history"
    and rec: "rec \<in> set (fst (parse_records st pyfloat p zf history))"
    and some: "g \<in> set geo" "von_datum g \<le> obs_timestamp rec"
  shows "\<exists>e \<in> set geo. von_datum e \<le> obs_timestamp rec \<and>
           (\<forall>e' \<in> set geo. von_datum e' \<le> obs_timestamp rec \<longrightarrow> von_datum e' \<le> von_datum e) \<and>
           obs_lat rec = Geogr_Breite e \<and> obs_lon rec = Geogr_Laenge e \<and>
           obs_height rec = Stationshoehe e \<and> obs_station_name rec = Stationsname e"
proof -
  let ?ts = "obs_timestamp rec"
  have h: "history =
      fold (\<lambda>row history. dict_set history (von_datum row) (snd (geo_entry row))) geo []"
    using hist geo by (simp add: parse_lat_lon_history_def geo_entry_def)
  from history_of_sorted [OF asc] h
  have hs: "sorted_wrt (<) (map fst history)"
    and hk: "fst ` set history = von_datum ` set geo"
    and hsub: "set history \<subseteq> geo_entry ` set geo" by auto
  from some hk obtain l where "(von_datum g, l) \<in> set history"
    by (metis (no_types, lifting) image_iff prod.collapse)
  from parse_records_location [OF rec] obtain b where
    sel: "select_location history ?ts b =
            Some (obs_lat rec, obs_lon rec, obs_height rec, obs_station_name rec)" ..
  from select_location_sorted [OF hs \<open>(von_datum g, l) \<in> set history\<close> some(2), of b]
  obtain d' l' where *: "(d', l') \<in> set history" "d' \<le> ?ts"
    "\<forall>(d'', l'') \<in> set history. d'' \<le> ?ts \<longrightarrow> d'' \<le> d'"
    "select_location history ?ts b = Some l'" by auto
  from *(1) hsub obtain e where e: "e \<in> set geo" "geo_entry e = (d', l')" by auto
  have great: "\<forall>e' \<in> set geo. von_datum e' \<le> ?ts \<longrightarrow> von_datum e' \<le> d'"
  proof (intro ballI impI)
    fix e' assume "e' \<in> set geo" "von_datum e' \<le> ?ts"
    then have "von_datum e' \<in> fst ` set history" using hk by auto
    then obtain l'' where "(von_datum e', l'') \<in> set history" by force
    with *(3) \<open>von_datum e' \<le> ?ts\<close> show "von_datum e' \<le> d'" by auto
  qed
  from e *(2,4) sel great show ?thesis
    by (intro bexI [of _ e]) (auto simp: geo_entry_def)
qed

text \<open>
  With the geography file in the order 1990, 1995, 2000, the row of 1997 gets the
  location of 1995.
\<close>

theorem location_of_ascending_example:
  "\<exists>e \<in> set sorted_geography. von_datum e \<le> obs_timestamp sorted_observation \<and>
      (\<forall>e' \<in> set sorted_geography.
         von_datum e' \<le> obs_timestamp sorted_observation \<longrightarrow> von_datum e' \<le> von_datum e) \<and>
      obs_lat sorted_observation = Geogr_Breite e \<and>
      obs_lon sorted_observation = Geogr_Laenge e \<and>
      obs_height sorted_observation = Stationshoehe e \<and>
      obs_station_name sorted_observation = Stationsname e"
proof -
  have 1: "map_of sorted_zip (''Metadaten_Geographie_'' @ ''00044'' @ ''.txt'')
      = Some (Geography sorted_geography)"
    by (simp add: sorted_zip_def)
  have 2: "sorted (map von_datum sorted_geography)"
    by (simp add: sorted_geography_def)
  have 3: "sorted_observation \<in> set (fst (parse_records example_settings example_float
      example_parser sorted_zip sorted_history))"
    by (simp add: sorted_parse_records)
  have 4: "hd sorted_geography \<in> set sorted_geography"
    "von_datum (hd sorted_geography) \<le> obs_timestamp sorted_observation"
    by (simp_all add: sorted_geography_def sorted_observation_def)
  show ?thesis
    by (rule location_of_ascending_history [OF 1 2 sorted_lat_lon_history 3 4])
qed

subsection \<open>The provenance string\<close>

text \<open>
  C8: for the archive \<^verbatim>\<open>stundenwerte_RR_00044_19900101_20191231_hist.zip\<close> the
  parser's observation type is \<^verbatim>\<open>historical\<close>, and the record \<^verbatim>\<open>parse_records\<close> yields
  has the source \<^verbatim>\<open>Observations:Recent:<filename>\<close>: the type in the string is the
  constant of line 325, not the parser's.
\<close>

theorem historical_source_says_recent:
  "parse_observation_type example_parser = Inr ''historical'' \<and>
   map obs_source (fst (parse_records example_settings example_float example_parser
     example_zip example_history))
     = [''Observations:Recent:produkt_rr_stunde_19900101_20191231_00044.txt'']"
  by (simp add: example_observation_type example_parse_records)
    (simp add: example_observation_def)

subsection \<open>sanitize_record\<close>

lemma sanitize_record_raises: "sanitize_record config p r = Inl AttributeError"
  by (simp add: sanitize_record_def self_ignored_values_def parser_attributes_def)

text \<open>
  C7: with an ignored-values file that lists, for the parser's url and the record's
  timestamp, the very value the record holds, \<^verbatim>\<open>sanitize_record\<close> raises
  \<^verbatim>\<open>AttributeError\<close>: it reads \<^verbatim>\<open>self.ignored_values\<close>, and the property is declared as
  \<^verbatim>\<open>_ignored_values\<close>. The loop the claim describes would null the value, and \<^verbatim>\<open>parse\<close>
  yields no record of the archive.
\<close>

theorem sanitize_record_attribute_error:
  "sanitize_record example_ignored example_parser example_observation = Inl AttributeError \<and>
   sanitize_loop [(Precipitation, - 0.1)] example_observation []
     = Inr (example_observation\<lparr>obs_elements := [(Precipitation, None)]\<rparr>, []) \<and>
   ObservationsParser_parse example_settings example_float example_ignored example_parser
     example_zip = (([], Some AttributeError), [])"
  by (simp add: sanitize_record_raises ObservationsParser_parse_def example_station_id
      example_observation_type example_lat_lon_history example_parse_records)
    (simp add: example_observation_def)

lemma sanitize_loop_keeps_unlisted:
  "el \<notin> fst ` set ignores \<Longrightarrow> sanitize_loop ignores r ws = Inr (r', ws') \<Longrightarrow>
   map_of (obs_elements r') el = map_of (obs_elements r) el"
proof (induction ignores r ws rule: sanitize_loop.induct)
  case (1 r ws)
  then show ?case by simp
next
  case (2 e ignored_value rest r ws)
  then show ?case
    by (auto simp: map_of_dict_set split: option.splits if_splits)
qed

section \<open>Properties of CurrentObservationsParser, and the precipitation rule\<close>

lemma example_current_parse:
  "CurrentObservationsParser_parse example_float example_strptime example_units
     sources_with_forecast None None None None example_current_file
   = ([\<lparr>cur_observation_type = ''current'', cur_station_id = ''01001'',
        cur_station_name = ''JAN MAYEN'', cur_lat = 70.93, cur_lon = - 8.67,
        cur_height = 10, cur_timestamp = 1585731600,
        cur_elements =
          [(Temperature, Some 296.65), (Wind_direction, Some 270), (Wind_speed, Some 5),
           (Precipitation, Some (- 0.1)), (Pressure_msl, Some 101320),
           (Sunshine, None)]\<rparr>], None)"
  by (simp add: CurrentObservationsParser_parse_def example_current_file_def DATE_COLUMN_def
      HOUR_COLUMN_def rstrip_underscore_def load_location_def example_source_def
      sources_with_forecast_def parse_row_def current_ELEMENTS_def replace_comma_def
      example_float_def example_strptime_def convert_elements_def current_CONVERTERS_def
      example_units_def)

text \<open>
  C5, as the claim states it, fails: the current-observations parser yields the
  precipitation it parsed from \<^verbatim>\<open>-0,1\<close>, and the loop of
  \<^verbatim>\<open>ObservationsParser.sanitize_record\<close> over no ignored values leaves a precipitation
  of \<open>-0.1\<close> in the record.
\<close>

theorem negative_precipitation_emitted:
  "map (\<lambda>r. map_of (cur_elements r) Precipitation)
     (fst (CurrentObservationsParser_parse example_float example_strptime example_units
        sources_with_forecast None None None None example_current_file))
     = [Some (Some (- 0.1))] \<and>
   sanitize_loop [] example_observation [] = Inr (example_observation, []) \<and>
   map_of (obs_elements example_observation) Precipitation = Some (Some (- 0.1))"
  by (simp add: example_current_parse) (simp add: example_observation_def)

text \<open>
  C5 (amended): of the record \<^verbatim>\<open>MOSMIXParser.sanitize_records\<close> yields for the \<open>i\<close>-th
  record it is given, the precipitation is null when the parsed value was null or
  strictly below zero, and the parsed value otherwise. The other parsers have no such
  rule: the loop of \<^verbatim>\<open>ObservationsParser.sanitize_record\<close> leaves every element alone
  that the ignored values of the timestamp do not list, a negative precipitation too.
\<close>

theorem negative_precipitation_mosmix:
  "(i < length records \<longrightarrow>
      precipitation (fst (sanitize_records records) ! i) =
        (case precipitation (records ! i) of
           None \<Rightarrow> None
         | Some p \<Rightarrow> if p < 0 then None else Some p)) \<and>
   (Precipitation \<notin> fst ` set ignores \<and> sanitize_loop ignores r ws = Inr (r', ws') \<longrightarrow>
      map_of (obs_elements r') Precipitation = map_of (obs_elements r) Precipitation)"
  using sanitize_loop_keeps_unlisted [of Precipitation ignores r ws r' ws']
  by (simp add: sanitize_records_nth sanitize_step_precipitation)

text \<open>The specification's scenario: a MOSMIX precipitation of \<open>-0.1\<close> is yielded as null.\<close>

theorem negative_precipitation_mosmix_example:
  "precipitation (fst (sanitize_records [mosmix_example (Some (- 0.1)) None]) ! 0) = None \<and>
   map_of (obs_elements (fst (projr (sanitize_loop [] example_observation []))))
     Precipitation = Some (Some (- 0.1))"
  using negative_precipitation_mosmix [of 0 "[mosmix_example (Some (- 0.1)) None]" "[]"
      example_observation "[]" example_observation "[]"]
  by (simp add: mosmix_example_def example_observation_def)

lemma load_location_without_forecast:
  "\<forall>s \<in> set tbl. \<not> (src_observation_type s = ''forecast'' \<and>
       src_dwd_station_id s = Some a_station_id) \<Longrightarrow>
   load_location tbl a_station_id = Inl ValueError"
proof -
  assume "\<forall>s \<in> set tbl. \<not> (src_observation_type s = ''forecast'' \<and>
       src_dwd_station_id s = Some a_station_id)"
  then have "filter (\<lambda>s. src_observation_type s = ''forecast'' \<and>
       src_dwd_station_id s = Some a_station_id) tbl = []"
    by (simp add: filter_empty_conv)
  then show ?thesis by (simp add: load_location_def)
qed

text \<open>
  C9, as the claim states it, fails: for a file of station 01001 and a sources table
  whose only forecast row is of station 01002, the lookup and the parser end in
  \<^verbatim>\<open>ValueError\<close>, not in \<^verbatim>\<open>MissingStationError\<close>.
\<close>

theorem missing_station_is_value_error:
  "load_location sources_without_forecast ''01001'' = Inl ValueError \<and>
   load_location sources_without_forecast ''01001'' \<noteq> Inl MissingStationError \<and>
   CurrentObservationsParser_parse example_float example_strptime example_units
     sources_without_forecast None None None None example_current_file
     = ([], Some ValueError)"
  by (simp add: CurrentObservationsParser_parse_def example_current_file_def DATE_COLUMN_def
      rstrip_underscore_def load_location_def sources_without_forecast_def
      example_source_def)

text \<open>
  C9 (amended): when the sources table has no forecast row of the station the file's
  first row names, \<^verbatim>\<open>load_location\<close> raises \<^verbatim>\<open>ValueError\<close>, and so does the parser,
  before it yields a record, whenever it is not given all of \<open>lat\<close>, \<open>lon\<close>, \<open>height\<close> and
  \<open>station_name\<close>.
\<close>

theorem missing_station_value_error:
  assumes "map_of first_row DATE_COLUMN = Some cell"
    and "\<forall>s \<in> set tbl. \<not> (src_observation_type s = ''forecast'' \<and>
           src_dwd_station_id s = Some (rstrip_underscore cell))"
    and "a_lat = None \<or> a_lon = None \<or> a_height = None \<or> a_name = None"
  shows "load_location tbl (rstrip_underscore cell) = Inl ValueError \<and>
    CurrentObservationsParser_parse pyfloat strptime u tbl a_lat a_lon a_height a_name
      (first_row # rest) = ([], Some ValueError)"
  using assms(1,3) load_location_without_forecast [OF assms(2)]
  by (cases a_lat; cases a_lon; cases a_height; cases a_name)
    (simp_all add: CurrentObservationsParser_parse_def)

text \<open>
  The file of station 01001 over the table whose only forecast row is of station 01002.
\<close>

theorem missing_station_value_error_example:
  "load_location sources_without_forecast ''01001'' = Inl ValueError \<and>
   CurrentObservationsParser_parse example_float example_strptime example_units
     sources_without_forecast None None None None example_current_file
     = ([], Some ValueError)"
proof -
  have 1: "map_of (hd example_current_file) DATE_COLUMN = Some ''01001_''"
    by (simp add: example_current_file_def DATE_COLUMN_def)
  have 2: "\<forall>s \<in> set sources_without_forecast. \<not> (src_observation_type s = ''forecast'' \<and>
           src_dwd_station_id s = Some (rstrip_underscore ''01001_''))"
    by (simp add: sources_without_forecast_def example_source_def rstrip_underscore_def)
  have 3: "(None :: real option) = None \<or> (None :: real option) = None \<or>
      (None :: real option) = None \<or> (None :: string option) = None"
    by simp
  have 4: "example_current_file = hd example_current_file # tl example_current_file"
    by (simp add: example_current_file_def)
  have 5: "rstrip_underscore ''01001_'' = ''01001''"
    by (simp add: rstrip_underscore_def)
  from missing_station_value_error [OF 1 2 3, of example_float example_strptime
      example_units "tl example_current_file"]
  show ?thesis
    using 4 5 by simp
qed

section \<open>Properties of the weather query\<close>

lemma distinct_on_subset: "set (distinct_on_timestamp rs) \<subseteq> set rs"
  by (induction rs rule: distinct_on_timestamp.induct) auto

lemma distinct_on_timestamps:
  "w_timestamp ` set (distinct_on_timestamp rs) = w_timestamp ` set rs"
proof (induction rs rule: distinct_on_timestamp.induct)
  case 1
  then show ?case by simp
next
  case (2 r rs)
  then show ?case by auto
qed

lemma distinct_on_distinct: "distinct (map w_timestamp (distinct_on_timestamp rs))"
proof (induction rs rule: distinct_on_timestamp.induct)
  case 1
  then show ?case by simp
next
  case (2 r rs)
  have "w_timestamp r \<notin> w_timestamp ` set (filter (\<lambda>x. w_timestamp x \<noteq> w_timestamp r) rs)"
    by auto
  with 2 show ?case by (simp add: distinct_on_timestamps)
qed

lemma distinct_on_sorted:
  "sorted (map w_timestamp rs) \<Longrightarrow> sorted (map w_timestamp (distinct_on_timestamp rs))"
proof (induction rs rule: distinct_on_timestamp.induct)
  case 1
  then show ?case by simp
next
  case (2 r rs)
  from "2.prems" have le: "\<forall>x \<in> set rs. w_timestamp r \<le> w_timestamp x"
    and s: "sorted (map w_timestamp rs)" by auto
  have "sorted (map w_timestamp (filter (\<lambda>x. w_timestamp x \<noteq> w_timestamp r) rs))"
    using s by (rule sorted_filter)
  from "2.IH" [OF this] le distinct_on_subset [of "filter (\<lambda>x. w_timestamp x \<noteq> w_timestamp r) rs"]
  show ?case by auto
qed

lemma sorted_by_order:
  "sorted (map w_timestamp (sort_key (order_by sid) rs))"
proof -
  have "sorted (map (order_by sid) (sort_key (order_by sid) rs))"
    by (rule sorted_sort_key)
  then have "sorted_wrt (\<lambda>x y. order_by sid x \<le> order_by sid y) (sort_key (order_by sid) rs)"
    by (simp add: sorted_map)
  then have "sorted_wrt (\<lambda>x y. w_timestamp x \<le> w_timestamp y) (sort_key (order_by sid) rs)"
    by (rule sorted_wrt_mono_rel [rotated]) (auto simp: order_by_def less_eq_prod_def)
  then show ?thesis by (simp add: sorted_map)
qed

lemma weather_query_member:
  "r \<in> set (weather_query tbl date last_date sid not_null) \<Longrightarrow>
   r \<in> set tbl \<and> where_clause date last_date sid not_null r"
  using distinct_on_subset [of "sort_key (order_by sid) (filter (where_clause date last_date sid not_null) tbl)"]
  by (auto simp: weather_query_def)

lemma weather_query_covers:
  "c \<in> set tbl \<Longrightarrow> where_clause date last_date sid not_null c \<Longrightarrow>
   \<exists>r \<in> set (weather_query tbl date last_date sid not_null). w_timestamp r = w_timestamp c"
proof -
  assume "c \<in> set tbl" "where_clause date last_date sid not_null c"
  then have "w_timestamp c \<in> w_timestamp ` set (sort_key (order_by sid) (filter (where_clause date last_date sid not_null) tbl))"
    by auto
  then have "w_timestamp c \<in> w_timestamp ` set (weather_query tbl date last_date sid not_null)"
    by (simp add: weather_query_def distinct_on_timestamps)
  then show ?thesis by force
qed

lemma weather_query_distinct:
  "distinct (map w_timestamp (weather_query tbl date last_date sid not_null))"
  by (simp add: weather_query_def distinct_on_distinct)

lemma weather_query_sorted:
  "sorted (map w_timestamp (weather_query tbl date last_date sid not_null))"
  by (simp add: weather_query_def distinct_on_sorted sorted_by_order)

lemma hourly_count:
  assumes "distinct (ts :: int list)"
    and "\<forall>t \<in> set ts. d \<le> t \<and> t \<le> d + 86400 \<and> 3600 dvd t"
  shows "length ts \<le> 25"
proof -
  have "set ts \<subseteq> (\<lambda>k. 3600 * k) ` {d div 3600 .. d div 3600 + 24}"
  proof
    fix t assume t: "t \<in> set ts"
    with assms(2) have b: "d \<le> t" "t \<le> d + 86400" "3600 dvd t" by auto
    have "d div 3600 \<le> t div 3600" using b(1) by (simp add: zdiv_mono1)
    moreover have "t div 3600 \<le> (d + 86400) div 3600" using b(2) by (simp add: zdiv_mono1)
    moreover have "(d + 86400) div 3600 = d div 3600 + 24" by simp
    moreover have "t = 3600 * (t div 3600)" using b(3) by simp
    ultimately show "t \<in> (\<lambda>k. 3600 * k) ` {d div 3600 .. d div 3600 + 24}"
      by (metis atLeastAtMost_iff image_eqI)
  qed
  then have "card (set ts) \<le> card ((\<lambda>k. 3600 * k) ` {d div 3600 .. d div 3600 + 24})"
    by (intro card_mono) auto
  also have "\<dots> \<le> card {d div 3600 .. d div 3600 + 24}"
    by (rule card_image_le) simp
  also have "\<dots> = 25" by simp
  finally show ?thesis using assms(1) by (simp add: distinct_card)
qed

lemma weather_of_source_id:
  "weather pg db date last_date a_lat a_lon dwd wmo (Some s) max_dist fallback = Inr res \<Longrightarrow>
   res = \<lparr>weather_key = weather_query (weather_tbl db) date
            (case last_date of None \<Rightarrow> date + 86400 | Some d \<Rightarrow> d) (Single s) [],
          sources_key = None\<rparr>"
  by (auto simp: weather_def Let_def split: if_splits sum.splits)

text \<open>
  C4 (amended): without \<open>last_date\<close>, \<^verbatim>\<open>weather(d, source_id=s)\<close> is the call with
  \<open>last_date = d + 1 day\<close>. The rows it returns are rows of source \<open>s\<close> with
  \<open>d \<le> timestamp \<le> d + 1 day\<close>, both bounds included, in ascending order of pairwise
  different timestamps; when their timestamps are on whole hours there are at most 25.
\<close>

theorem weather_default_interval:
  "weather pg db d None a_lat a_lon dwd wmo (Some s) max_dist fallback =
     weather pg db d (Some (d + 86400)) a_lat a_lon dwd wmo (Some s) max_dist fallback \<and>
   (weather pg db d None a_lat a_lon dwd wmo (Some s) max_dist fallback = Inr res \<longrightarrow>
     weather_key res = weather_query (weather_tbl db) d (d + 86400) (Single s) [] \<and>
     (\<forall>r \<in> set (weather_key res).
        r \<in> set (weather_tbl db) \<and> w_source_id r = s \<and>
        d \<le> w_timestamp r \<and> w_timestamp r \<le> d + 86400) \<and>
     distinct (map w_timestamp (weather_key res)) \<and>
     sorted (map w_timestamp (weather_key res)) \<and>
     ((\<forall>r \<in> set (weather_key res). 3600 dvd w_timestamp r) \<longrightarrow>
        length (weather_key res) \<le> 25))"
proof -
  let ?q = "weather_query (weather_tbl db) d (d + 86400) (Single s) []"
  have same: "weather pg db d None a_lat a_lon dwd wmo (Some s) max_dist fallback =
     weather pg db d (Some (d + 86400)) a_lat a_lon dwd wmo (Some s) max_dist fallback"
    by (simp add: weather_def)
  have mem: "\<forall>r \<in> set ?q. r \<in> set (weather_tbl db) \<and> w_source_id r = s \<and>
        d \<le> w_timestamp r \<and> w_timestamp r \<le> d + 86400"
    using weather_query_member [of _ "weather_tbl db" d "d + 86400" "Single s" "[]"]
    by (auto simp: where_clause_def)
  have count: "(\<forall>r \<in> set ?q. 3600 dvd w_timestamp r) \<longrightarrow> length ?q \<le> 25"
  proof
    assume "\<forall>r \<in> set ?q. 3600 dvd w_timestamp r"
    with mem have "\<forall>t \<in> set (map w_timestamp ?q). d \<le> t \<and> t \<le> d + 86400 \<and> 3600 dvd t"
      by auto
    from hourly_count [OF weather_query_distinct this] show "length ?q \<le> 25" by simp
  qed
  have "weather_key res = ?q"
    if "weather pg db d None a_lat a_lon dwd wmo (Some s) max_dist fallback = Inr res"
    using weather_of_source_id [OF that] by simp
  then show ?thesis
    using same mem count weather_query_distinct [of "weather_tbl db" d "d + 86400" "Single s" "[]"]
      weather_query_sorted [of "weather_tbl db" d "d + 86400" "Single s" "[]"]
    by auto
qed

lemma sources_by_id:
  "sources pg tbl a_lat a_lon dwd wmo (Some s) max_dist ignore_type =
     (if \<exists>src \<in> set tbl. src_id src = s
      then Inr (map (\<lambda>x. (x, None)) (sort_key (\<lambda>x. type_order pg (src_observation_type x))
             (filter (\<lambda>x. Some (src_id x) = Some s) tbl)))
      else Inl LookupError)"
proof -
  have "(sort_key (\<lambda>x. type_order pg (src_observation_type x)) (filter (\<lambda>x. Some (src_id x) = Some s) tbl) = [])
      = (\<not> (\<exists>src \<in> set tbl. src_id src = s))"
    by (metis (mono_tags, lifting) filter_empty_conv length_0_conv length_sort option.inject)
  then show ?thesis
    by (auto simp: sources_def fetch_sources_def order_sources_def Let_def)
qed

text \<open>
  C10: over tables in which every weather row's \<open>source_id\<close> is the id of a source (I1),
  \<^verbatim>\<open>weather(d, source_id=s)\<close> returns a dict without the key \<^verbatim>\<open>sources\<close> or raises
  \<^verbatim>\<open>LookupError\<close>; it returns \<^verbatim>\<open>{'weather': []}\<close> when a source with id \<open>s\<close> exists and
  has no rows in the interval; and it raises \<^verbatim>\<open>LookupError\<close> exactly when no source
  with id \<open>s\<close> exists.
\<close>

theorem weather_by_source_id_lookup:
  assumes integrity: "\<forall>r \<in> set (weather_tbl db). \<exists>src \<in> set (sources_tbl db). src_id src = w_source_id r"
  shows "(case weather pg db d last_date a_lat a_lon dwd wmo (Some s) max_dist fallback of
            Inr res \<Rightarrow> sources_key res = None
          | Inl e \<Rightarrow> e = LookupError) \<and>
     ((\<exists>src \<in> set (sources_tbl db). src_id src = s) \<and>
       weather_query (weather_tbl db) d (case last_date of None \<Rightarrow> d + 86400 | Some l \<Rightarrow> l) (Single s) [] = []
       \<longrightarrow> weather pg db d last_date a_lat a_lon dwd wmo (Some s) max_dist fallback
             = Inr \<lparr>weather_key = [], sources_key = None\<rparr>) \<and>
     (weather pg db d last_date a_lat a_lon dwd wmo (Some s) max_dist fallback = Inl LookupError
        \<longleftrightarrow> \<not> (\<exists>src \<in> set (sources_tbl db). src_id src = s))"
proof -
  let ?ld = "case last_date of None \<Rightarrow> d + 86400 | Some l \<Rightarrow> l"
  let ?q = "weather_query (weather_tbl db) d ?ld (Single s) []"
  have empty: "?q = []" if "\<not> (\<exists>src \<in> set (sources_tbl db). src_id src = s)"
  proof (rule ccontr)
    assume "?q \<noteq> []"
    then obtain r where "r \<in> set ?q" by (cases ?q) auto
    from weather_query_member [OF this] have "r \<in> set (weather_tbl db)" "w_source_id r = s"
      by (auto simp: where_clause_def)
    with integrity that show False by auto
  qed
  show ?thesis
    using empty
    by (auto simp: weather_def Let_def sources_by_id split: sum.splits if_splits)
qed

section \<open>Properties of the fallback fill\<close>

lemma all_elements_complete: "f \<in> set all_elements"
  by (cases f) (simp_all add: all_elements_def)

lemma missing_row_fields_iff: "f \<in> set (missing_row_fields r) \<longleftrightarrow> w_elements r f = None"
  by (simp add: missing_row_fields_def all_elements_complete)

lemma incomplete_rows_eq:
  "incomplete_rows rows =
     map (\<lambda>row. (row, missing_row_fields row)) (filter (\<lambda>row. missing_row_fields row \<noteq> []) rows)"
  by (induction rows) (auto simp: incomplete_rows_def)

lemma missing_fields_iff:
  "g \<in> set (missing_fields rows) \<longleftrightarrow> (\<exists>p \<in> set rows. w_elements p g = None)"
proof
  assume "g \<in> set (missing_fields rows)"
  then show "\<exists>p \<in> set rows. w_elements p g = None"
    by (auto simp: missing_fields_def incomplete_rows_eq missing_row_fields_iff)
next
  assume "\<exists>p \<in> set rows. w_elements p g = None"
  then obtain p where p: "p \<in> set rows" "w_elements p g = None" by auto
  then have "g \<in> set (missing_row_fields p)" by (simp add: missing_row_fields_iff)
  moreover from this have "missing_row_fields p \<noteq> []" by auto
  ultimately show "g \<in> set (missing_fields rows)"
    using p(1) by (auto simp: missing_fields_def incomplete_rows_eq)
qed

lemma sorted_hd_last:
  "sorted (map k ys) \<Longrightarrow> y \<in> set ys \<Longrightarrow> k (hd ys) \<le> (k y :: int) \<and> k y \<le> k (last ys)"
proof (induction ys)
  case Nil
  then show ?case by simp
next
  case (Cons a ys)
  then show ?case by (cases ys) auto
qed

lemma fold_fill_field:
  "fallback_source_ids r = Some m0 \<Longrightarrow>
   fold (fill_field fb) fs r =
     r\<lparr>w_elements := (\<lambda>f. if f \<in> set fs then w_elements fb f else w_elements r f),
       fallback_source_ids := Some (\<lambda>f. if f \<in> set fs then Some (w_source_id fb) else m0 f)\<rparr>"
proof (induction fs arbitrary: r m0)
  case Nil
  then show ?case by simp
next
  case (Cons a fs)
  have "fallback_source_ids (fill_field fb a r) = Some (m0(a \<mapsto> w_source_id fb))"
    using Cons.prems by (simp add: fill_field_def)
  from Cons.IH [OF this] show ?case
    by (simp add: fill_field_def fun_eq_iff)
qed

lemma fill_row_props:
  "w_timestamp (fill_row fb fs row) = w_timestamp row \<and>
   w_source_id (fill_row fb fs row) = w_source_id row \<and>
   w_elements (fill_row fb fs row) = (\<lambda>f. if f \<in> set fs then w_elements fb f else w_elements row f) \<and>
   fallback_source_ids (fill_row fb fs row) = Some (\<lambda>f. if f \<in> set fs then Some (w_source_id fb) else None)"
proof -
  have "fold (fill_field fb) fs (row\<lparr>fallback_source_ids := Some Map.empty\<rparr>) =
      row\<lparr>fallback_source_ids := Some Map.empty\<rparr>
        \<lparr>w_elements := (\<lambda>f. if f \<in> set fs then w_elements fb f
                          else w_elements (row\<lparr>fallback_source_ids := Some Map.empty\<rparr>) f),
         fallback_source_ids := Some (\<lambda>f. if f \<in> set fs then Some (w_source_id fb) else Map.empty f)\<rparr>"
    by (rule fold_fill_field) simp
  then show ?thesis by (simp add: fill_row_def cong: if_cong)
qed

lemma fold_by_timestamp:
  "(\<forall>t x. fold (\<lambda>row d. d(w_timestamp row \<mapsto> row)) xs Map.empty t = Some x
       \<longrightarrow> x \<in> set xs \<and> w_timestamp x = t) \<and>
   (\<forall>t \<in> w_timestamp ` set xs. fold (\<lambda>row d. d(w_timestamp row \<mapsto> row)) xs Map.empty t \<noteq> None)"
proof (induction xs rule: rev_induct)
  case Nil
  then show ?case by simp
next
  case (snoc x xs)
  then show ?case by (auto split: if_splits)
qed

lemma fallback_rows_Some:
  "fallback_rows tbl lo hi ids nn t = Some fb \<Longrightarrow>
   fb \<in> set tbl \<and> w_timestamp fb = t \<and> where_clause lo hi (Many ids) nn fb"
  using fold_by_timestamp [of "weather_query tbl lo hi (Many ids) nn"]
    weather_query_member [of fb tbl lo hi "Many ids" nn]
  by (auto simp: fallback_rows_def)

lemma fallback_rows_covers:
  "c \<in> set tbl \<Longrightarrow> where_clause lo hi (Many ids) nn c \<Longrightarrow>
   \<exists>fb. fallback_rows tbl lo hi ids nn (w_timestamp c) = Some fb"
  using fold_by_timestamp [of "weather_query tbl lo hi (Many ids) nn"]
    weather_query_covers [of c tbl lo hi "Many ids" nn]
  by (fastforce simp: fallback_rows_def)

lemma fill_missing_fields_fills:
  assumes sorted: "sorted (map w_timestamp rows)"
    and r: "r \<in> set rows" "w_elements r f = None"
    and c: "c \<in> set tbl" "w_source_id c \<in> set ids" "w_timestamp c = w_timestamp r"
      "\<forall>g. (\<exists>p \<in> set rows. w_elements p g = None) \<longrightarrow> w_elements c g \<noteq> None"
  shows "\<exists>r' \<in> set (fill_missing_fields tbl rows date ld ids). \<exists>b \<in> set tbl.
      w_timestamp r' = w_timestamp r \<and> w_source_id r' = w_source_id r \<and>
      w_elements r' f \<noteq> None \<and>
      w_source_id b \<in> set ids \<and> w_timestamp b = w_timestamp r \<and>
      w_elements b f = w_elements r' f \<and>
      (\<exists>m. fallback_source_ids r' = Some m \<and> m f = Some (w_source_id b))"
proof -
  let ?inc = "incomplete_rows rows"
  let ?P = "\<lambda>row. missing_row_fields row \<noteq> []"
  let ?lo = "w_timestamp (fst (hd ?inc))" and ?hi = "w_timestamp (fst (last ?inc))"
  let ?nn = "missing_fields rows"
  have fr: "f \<in> set (missing_row_fields r)" using r(2) by (simp add: missing_row_fields_iff)
  then have Pr: "?P r" by auto
  then have rin: "r \<in> set (filter ?P rows)" using r(1) by simp
  have fne: "filter ?P rows \<noteq> []" using rin by (metis empty_iff empty_set)
  then have ne: "?inc \<noteq> []" by (simp add: incomplete_rows_eq)
  have lohi: "?lo = w_timestamp (hd (filter ?P rows))" "?hi = w_timestamp (last (filter ?P rows))"
    using fne by (simp_all add: incomplete_rows_eq hd_map last_map)
  have "sorted (map w_timestamp (filter ?P rows))" using sorted by (rule sorted_filter)
  from sorted_hd_last [OF this rin] have bounds: "?lo \<le> w_timestamp r" "w_timestamp r \<le> ?hi"
    by (simp_all add: lohi)
  have "list_all (\<lambda>el. w_elements c el \<noteq> None) ?nn"
    using c(4) by (auto simp: list_all_iff missing_fields_iff)
  with bounds c(2,3) have wc: "where_clause ?lo ?hi (Many ids) ?nn c"
    by (simp add: where_clause_def)
  from fallback_rows_covers [OF c(1) wc] obtain fb where
    fb: "fallback_rows tbl ?lo ?hi ids ?nn (w_timestamp r) = Some fb" by (auto simp: c(3))
  from fallback_rows_Some [OF fb] have fbp: "fb \<in> set tbl" "w_timestamp fb = w_timestamp r"
    "where_clause ?lo ?hi (Many ids) ?nn fb" by auto
  have "f \<in> set ?nn" using r by (auto simp: missing_fields_iff)
  with fbp(3) have fbf: "w_elements fb f \<noteq> None" "w_source_id fb \<in> set ids"
    by (auto simp: where_clause_def list_all_iff)
  let ?r' = "fill_row fb (missing_row_fields r) r"
  define step where "step = (\<lambda>row. if missing_row_fields row = [] then row
                 else (case fallback_rows tbl ?lo ?hi ids ?nn (w_timestamp row) of
                         None \<Rightarrow> row
                       | Some fallback_row \<Rightarrow> fill_row fallback_row (missing_row_fields row) row))"
  have "fill_missing_fields tbl rows date ld ids = map step rows"
    using ne by (simp add: fill_missing_fields_def Let_def step_def)
  moreover have "step r = ?r'"
    using Pr fb by (simp add: step_def)
  ultimately have "?r' \<in> set (fill_missing_fields tbl rows date ld ids)"
    using r(1) by force
  moreover have "w_timestamp ?r' = w_timestamp r" "w_source_id ?r' = w_source_id r"
    "w_elements ?r' f = w_elements fb f"
    "fallback_source_ids ?r' = Some (\<lambda>f. if f \<in> set (missing_row_fields r) then Some (w_source_id fb) else None)"
    using fr by (simp_all add: fill_row_props)
  ultimately show ?thesis
    using fbp(1,2) fbf fr by (intro bexI [of _ ?r'] bexI [of _ fb]) auto
qed

text \<open>
  C1 (amended): in a call \<^verbatim>\<open>weather(date, last_date, ..., fallback=true)\<close> over the
  candidate sources \<^verbatim>\<open>sources(...)\<close> returns, if the primary row at timestamp \<open>t\<close> has a
  null field \<open>f\<close> and a candidate source has a row at \<open>t\<close> in which every field is
  non-null that is null in any primary row of the result, then the returned row at \<open>t\<close>
  has a non-null \<open>f\<close>, and \<^verbatim>\<open>fallback_source_ids[f]\<close> is the id of a candidate source
  whose row at \<open>t\<close> holds that value.
\<close>

theorem fallback_fills_complete_rows:
  assumes src: "sources pg (sources_tbl db) a_lat a_lon dwd wmo None max_dist False = Inr candidates"
    and r: "r \<in> set (weather_query (weather_tbl db) date
              (case last_date of None \<Rightarrow> date + 86400 | Some d \<Rightarrow> d)
              (Many (map (src_id \<circ> fst) candidates)) [])"
      "w_elements r f = None"
    and c: "c \<in> set (weather_tbl db)" "w_source_id c \<in> src_id ` fst ` set candidates"
      "w_timestamp c = w_timestamp r"
      "\<forall>g. (\<exists>p \<in> set (weather_query (weather_tbl db) date
              (case last_date of None \<Rightarrow> date + 86400 | Some d \<Rightarrow> d)
              (Many (map (src_id \<circ> fst) candidates)) []). w_elements p g = None)
           \<longrightarrow> w_elements c g \<noteq> None"
  shows "\<exists>res. weather pg db date last_date a_lat a_lon dwd wmo None max_dist True = Inr res \<and>
      (\<exists>r' \<in> set (weather_key res). \<exists>b \<in> set (weather_tbl db).
         w_timestamp r' = w_timestamp r \<and> w_source_id r' = w_source_id r \<and>
         w_elements r' f \<noteq> None \<and>
         w_source_id b \<in> src_id ` fst ` set candidates \<and> w_timestamp b = w_timestamp r \<and>
         w_elements b f = w_elements r' f \<and>
         (\<exists>m. fallback_source_ids r' = Some m \<and> m f = Some (w_source_id b)))"
proof -
  let ?ld = "case last_date of None \<Rightarrow> date + 86400 | Some d \<Rightarrow> d"
  let ?ids = "map (src_id \<circ> fst) candidates"
  let ?rows = "weather_query (weather_tbl db) date ?ld (Many ?ids) []"
  have ids: "set ?ids = src_id ` fst ` set candidates" by auto
  from fill_missing_fields_fills [OF weather_query_sorted r c(1) _ c(3,4), of ?ids date ?ld]
    c(2)
  have "\<exists>r' \<in> set (fill_missing_fields (weather_tbl db) ?rows date ?ld ?ids). \<exists>b \<in> set (weather_tbl db).
      w_timestamp r' = w_timestamp r \<and> w_source_id r' = w_source_id r \<and>
      w_elements r' f \<noteq> None \<and>
      w_source_id b \<in> set ?ids \<and> w_timestamp b = w_timestamp r \<and>
      w_elements b f = w_elements r' f \<and>
      (\<exists>m. fallback_source_ids r' = Some m \<and> m f = Some (w_source_id b))"
    unfolding ids by blast
  then show ?thesis
    unfolding ids using src by (simp add: weather_def Let_def)
qed

section \<open>The query on the example tables\<close>

lemma two_sources_by_station:
  "sources example_pg two_sources None None (Some ''01001'') None None 50000 False
     = Inr [(example_source 1 ''current'' ''01001'', None), (example_source 2 ''forecast'' ''01001'', None)]"
  by (simp add: sources_def fetch_sources_def order_sources_def two_sources_def example_pg_def
      example_source_def)

lemma complete_primary:
  "weather_query (weather_tbl complete_db) 1585742400 1585828800 (Many [1, 2]) []
    = [\<lparr>w_timestamp = 1585742400, w_source_id = 1,
          w_elements = measurements (Some 280) (Some 270) (Some 5) (Some 0) (Some 600) None,
          fallback_source_ids = None\<rparr>]"
  by (simp add: weather_query_def complete_db_def where_clause_def order_by_def)

lemma partial_primary:
  "weather_query (weather_tbl partial_db) 1585742400 1585828800 (Many [1, 2]) []
    = [\<lparr>w_timestamp = 1585742400, w_source_id = 1,
          w_elements = measurements (Some 280) (Some 270) (Some 5) (Some 0) None None,
          fallback_source_ids = None\<rparr>]"
  by (simp add: weather_query_def partial_db_def where_clause_def order_by_def)

lemma partial_fill:
  "fill_missing_fields (weather_tbl partial_db) 
      [\<lparr>w_timestamp = 1585742400, w_source_id = 1,
          w_elements = measurements (Some 280) (Some 270) (Some 5) (Some 0) None None,
          fallback_source_ids = None\<rparr>] 1585742400 1585828800 [1, 2]
   =  [\<lparr>w_timestamp = 1585742400, w_source_id = 1,
          w_elements = measurements (Some 280) (Some 270) (Some 5) (Some 0) None None,
          fallback_source_ids = None\<rparr>]"
  by (simp add: fill_missing_fields_def incomplete_rows_def missing_row_fields_def all_elements_def
     measurements_def missing_fields_def fallback_rows_def weather_query_def partial_db_def where_clause_def order_by_def)

lemma partial_sources: "sources_tbl partial_db = two_sources"
  by (simp add: partial_db_def)

lemma src_ids: "src_id (example_source i k c) = i"
  by (simp add: example_source_def)

text \<open>
  C1, as the claim states it, fails: at 2020-04-01 12:00 the primary row (source 1) lacks
  the pressure and the sunshine, the candidate source 2 has a row with a pressure of
  101320 and no sunshine, and the returned row still has a null pressure: the one fallback
  query asks for rows in which both fields are non-null.
\<close>

theorem fallback_misses_partial_row:
  "map (\<lambda>r. (w_timestamp r, w_source_id r, w_elements r Pressure_msl))
     (weather_key (projr (weather example_pg partial_db 1585742400 None None None
        (Some ''01001'') None None 50000 True))) = [(1585742400, 1, None)] \<and>
   map (\<lambda>r. (w_timestamp r, w_source_id r, w_elements r Pressure_msl)) (weather_tbl partial_db)
     = [(1585742400, 2, Some 101320), (1585742400, 1, None)]"
proof -
  have "weather_key (projr (weather example_pg partial_db 1585742400 None None None
        (Some ''01001'') None None 50000 True)) =  [\<lparr>w_timestamp = 1585742400, w_source_id = 1,
          w_elements = measurements (Some 280) (Some 270) (Some 5) (Some 0) None None,
          fallback_source_ids = None\<rparr>]"
    by (simp add: weather_def Let_def partial_sources two_sources_by_station src_ids partial_primary partial_fill)
  then show ?thesis
    by (simp add: measurements_def partial_db_def)
qed


lemma complete_sources: "sources_tbl complete_db = two_sources"
  by (simp add: complete_db_def)

text \<open>
  The specification's scenario: source 1 lacks the pressure, source 2 has every field;
  the returned row has the pressure of source 2, and \<^verbatim>\<open>fallback_source_ids\<close> says so.
\<close>

theorem fallback_fills_example:
  "\<exists>res. weather example_pg complete_db 1585742400 None None None (Some ''01001'') None None
       50000 True = Inr res \<and>
     (\<exists>r' \<in> set (weather_key res). \<exists>b \<in> set (weather_tbl complete_db).
         w_timestamp r' = 1585742400 \<and> w_source_id r' = 1 \<and>
         w_elements r' Pressure_msl \<noteq> None \<and>
         w_source_id b \<in> {1, 2} \<and> w_timestamp b = 1585742400 \<and>
         w_elements b Pressure_msl = w_elements r' Pressure_msl \<and>
         (\<exists>m. fallback_source_ids r' = Some m \<and> m Pressure_msl = Some (w_source_id b)))"
proof -
  let ?r = "\<lparr>w_timestamp = 1585742400, w_source_id = 1,
          w_elements = measurements (Some 280) (Some 270) (Some 5) (Some 0) (Some 600) None,
          fallback_source_ids = None\<rparr>"
  let ?c = "\<lparr>w_timestamp = 1585742400, w_source_id = 2,
          w_elements = measurements (Some 281) (Some 250) (Some 6) (Some 0) (Some 1200)
                         (Some 101320),
          fallback_source_ids = None\<rparr>"
  have src: "sources example_pg (sources_tbl complete_db) None None (Some ''01001'') None None 50000 False
     = Inr [(example_source 1 ''current'' ''01001'', None), (example_source 2 ''forecast'' ''01001'', None)]"
    by (simp add: complete_sources two_sources_by_station)
  have q: "weather_query (weather_tbl complete_db) 1585742400
              (case None of None \<Rightarrow> 1585742400 + 86400 | Some d \<Rightarrow> d)
              (Many (map (src_id \<circ> fst) [(example_source 1 ''current'' ''01001'', None), (example_source 2 ''forecast'' ''01001'', None)])) [] = [?r]"
    by (simp add: src_ids complete_primary)
  have 1: "?r \<in> set (weather_query (weather_tbl complete_db) 1585742400
              (case None of None \<Rightarrow> 1585742400 + 86400 | Some d \<Rightarrow> d)
              (Many (map (src_id \<circ> fst) [(example_source 1 ''current'' ''01001'', None), (example_source 2 ''forecast'' ''01001'', None)])) [])"
    unfolding q by simp
  have 2: "w_elements ?r Pressure_msl = None" by (simp add: measurements_def)
  have 3: "?c \<in> set (weather_tbl complete_db)" by (simp add: complete_db_def)
  have 4: "w_source_id ?c \<in> src_id ` fst ` set [(example_source 1 ''current'' ''01001'', None), (example_source 2 ''forecast'' ''01001'', None)]"
    by (simp add: src_ids)
  have 5: "w_timestamp ?c = w_timestamp ?r" by simp
  have 6: "\<forall>g. (\<exists>p \<in> set (weather_query (weather_tbl complete_db) 1585742400
              (case None of None \<Rightarrow> 1585742400 + 86400 | Some d \<Rightarrow> d)
              (Many (map (src_id \<circ> fst) [(example_source 1 ''current'' ''01001'', None), (example_source 2 ''forecast'' ''01001'', None)])) []). w_elements p g = None)
           \<longrightarrow> w_elements ?c g \<noteq> None"
    unfolding q by (auto simp: measurements_def split: element.splits)
  from fallback_fills_complete_rows [OF src 1 2 3 4 5 6]
  show ?thesis by (simp add: src_ids)
qed

lemma hourly_rows:
  "hourly_table = map (\<lambda>t. \<lparr>w_timestamp = t, w_source_id = 1,
               w_elements = measurements (Some 280) None None None None None,
               fallback_source_ids = None\<rparr>)
     [1585699200, 1585702800, 1585706400, 1585710000, 1585713600, 1585717200, 1585720800,
      1585724400, 1585728000, 1585731600, 1585735200, 1585738800, 1585742400, 1585746000,
      1585749600, 1585753200, 1585756800, 1585760400, 1585764000, 1585767600, 1585771200,
      1585774800, 1585778400, 1585782000, 1585785600]"
  by (simp add: hourly_table_def upt_rec)

lemma hourly_query:
  "weather_query hourly_table 1585699200 1585785600 (Single 1) [] = hourly_table"
  by (simp add: weather_query_def hourly_rows where_clause_def order_by_def)

lemma hourly_weather:
  "weather example_pg hourly_db 1585699200 None None None None None (Some 1) 50000 True
     = Inr \<lparr>weather_key = hourly_table, sources_key = None\<rparr>"
  by (simp add: weather_def hourly_db_def hourly_query) (simp add: hourly_rows)

text \<open>
  C4, as the claim states it, fails: for a source with a row at every full hour, the call
  for 2020-04-01 returns 25 rows, the last with the timestamp 2020-04-02 00:00, which is
  \<open>d + 1 day\<close>.
\<close>

theorem weather_returns_25_rows:
  "length (weather_key (projr (weather example_pg hourly_db 1585699200 None None None None None
      (Some 1) 50000 True))) = 25 \<and>
   w_timestamp (last (weather_key (projr (weather example_pg hourly_db 1585699200 None None None
      None None (Some 1) 50000 True)))) = 1585699200 + 86400"
  by (simp add: hourly_weather) (simp add: hourly_rows)

text \<open>The same call, as an instance of the amended statement.\<close>

theorem weather_default_interval_example:
  "length (weather_key \<lparr>weather_key = hourly_table, sources_key = None\<rparr>) \<le> 25 \<and>
   distinct (map w_timestamp (weather_key \<lparr>weather_key = hourly_table, sources_key = None\<rparr>)) \<and>
   weather example_pg hourly_db 1585699200 (Some (1585699200 + 86400)) None None None None (Some 1) 50000 True
     = Inr \<lparr>weather_key = hourly_table, sources_key = None\<rparr>"
proof -
  have "\<forall>r \<in> set (weather_key \<lparr>weather_key = hourly_table, sources_key = None\<rparr>). 3600 dvd w_timestamp r"
    by (simp add: hourly_rows)
  with weather_default_interval [of example_pg hourly_db 1585699200 None None None None 1
      50000 True "\<lparr>weather_key = hourly_table, sources_key = None\<rparr>"] hourly_weather
  show ?thesis by simp
qed

lemma empty_query:
  "weather_query hourly_table 0 86400 (Single s) [] = []"
  by (simp add: weather_query_def hourly_rows where_clause_def)

text \<open>
  Source 1 exists: a day without rows gives \<^verbatim>\<open>{'weather': []}\<close>, a day with rows a dict
  without \<^verbatim>\<open>sources\<close>. Source 7 does not exist: \<^verbatim>\<open>LookupError\<close>.
\<close>

theorem weather_by_source_id_example:
  "weather example_pg hourly_db 0 None None None None None (Some 1) 50000 True
     = Inr \<lparr>weather_key = [], sources_key = None\<rparr> \<and>
   weather example_pg hourly_db 0 None None None None None (Some 7) 50000 True = Inl LookupError \<and>
   sources_key (projr (weather example_pg hourly_db 1585699200 None None None None None (Some 1) 50000 True)) = None"
proof -
  have i: "\<forall>r \<in> set (weather_tbl hourly_db). \<exists>src \<in> set (sources_tbl hourly_db). src_id src = w_source_id r"
    by (simp add: hourly_db_def hourly_rows example_source_def)
  have 1: "\<exists>src \<in> set (sources_tbl hourly_db). src_id src = 1"
    by (simp add: hourly_db_def example_source_def)
  have 7: "\<not> (\<exists>src \<in> set (sources_tbl hourly_db). src_id src = 7)"
    by (simp add: hourly_db_def example_source_def)
  have e: "weather_query (weather_tbl hourly_db) 0 (case None of None \<Rightarrow> 0 + 86400 | Some l \<Rightarrow> l) (Single 1) [] = []"
    by (simp add: hourly_db_def empty_query)
  from weather_by_source_id_lookup [OF i, of example_pg 0 None None None None None 1 50000 True]
    weather_by_source_id_lookup [OF i, of example_pg 0 None None None None None 7 50000 True]
    weather_by_source_id_lookup [OF i, of example_pg 1585699200 None None None None None 1 50000 True]
    1 7 e
  show ?thesis by (simp add: hourly_weather)
qed

end
